theory Spec2Isabelle
  imports Main "HOL-Library.AList"
begin

section \<open>Strings and exceptions\<close>

text \<open>
  A Python \<open>str\<close> is a sequence of Unicode code points, so \<open>len\<close> counts code points and
  \<open>str.isdigit\<close> looks at each code point. A string is modelled as the list of its code
  points; \<open>lit\<close> turns an ASCII literal into such a list.
\<close>

type_synonym pystr = "nat list"

abbreviation lit :: "string \<Rightarrow> pystr" where
  "lit s \<equiv> map of_char s"

text \<open>
  The exceptions the program can raise, each carrying \<open>str(e)\<close>. \<open>ValueError\<close> is what the
  source raises for a malformed phone or birthday, for a phone that is not found and (raised
  by the interpreter) for a wrong number of values in an unpacking assignment;
  \<open>IndexError\<close> comes from \<open>args[0]\<close> on an empty list; \<open>OverflowError\<close> is what
  \<open>datetime + timedelta\<close> raises beyond 31.12.9999.
\<close>

datatype error = ValueError pystr | IndexError pystr | KeyError pystr | OverflowError pystr

section \<open>Unicode digit classes (CPython 3.11, Unicode 14.0)\<close>

text \<open>
  The code points of general category Nd come in blocks of ten consecutive code points
  whose digit values are 0 to 9; \<open>decimal_blocks\<close> lists the first code point of each block.
  These are the characters that \<open>\d\<close> matches in a \<open>str\<close> pattern and that \<open>int\<close> converts.
\<close>

definition decimal_blocks :: "nat list" where
  "decimal_blocks = [48, 1632, 1776, 1984, 2406, 2534, 2662, 2790, 2918, 3046, 3174, 3302,
     3430, 3558, 3664, 3792, 3872, 4160, 4240, 6112, 6160, 6470, 6608, 6784, 6800, 6992, 7088,
     7232, 7248, 42528, 43216, 43264, 43472, 43504, 43600, 44016, 65296, 66720, 68912, 69734,
     69872, 69942, 70096, 70384, 70736, 70864, 71248, 71360, 71472, 71904, 72016, 72784, 73040,
     73120, 92768, 92864, 93008, 120782, 120792, 120802, 120812, 120822, 123200, 123632,
     125264, 130032]"

definition is_decimal :: "nat \<Rightarrow> bool" where
  "is_decimal c = list_ex (\<lambda>s. s \<le> c \<and> c < s + 10) decimal_blocks"

definition decimal_value :: "nat \<Rightarrow> nat" where
  "decimal_value c =
     (case filter (\<lambda>s. s \<le> c \<and> c < s + 10) decimal_blocks of [] \<Rightarrow> 0 | s # _ \<Rightarrow> c - s)"

text \<open>
  \<open>str.isdigit\<close> also accepts the code points whose Numeric_Type is Digit: superscripts,
  subscripts, circled and parenthesised digits and a few others, given here as inclusive
  ranges.
\<close>

definition other_digit_ranges :: "(nat \<times> nat) list" where
  "other_digit_ranges = [(178, 179), (185, 185), (4969, 4977), (6618, 6618), (8304, 8304),
     (8308, 8313), (8320, 8329), (9312, 9320), (9332, 9340), (9352, 9360), (9450, 9450),
     (9461, 9469), (9471, 9471), (10102, 10110), (10112, 10120), (10122, 10130),
     (68160, 68163), (69216, 69224), (69714, 69722), (127232, 127242)]"

definition isdigit_char :: "nat \<Rightarrow> bool" where
  "isdigit_char c = (is_decimal c \<or> list_ex (\<lambda>(a, b). a \<le> c \<and> c \<le> b) other_digit_ranges)"

definition isdigit :: "pystr \<Rightarrow> bool" where
  "isdigit s = (s \<noteq> [] \<and> list_all isdigit_char s)"

definition ascii_digit :: "nat \<Rightarrow> bool" where
  "ascii_digit c = (48 \<le> c \<and> c \<le> 57)"

section \<open>Field value types\<close>

datatype Name = Name (name_value: pystr)

datatype Phone = Phone (phone_value: pystr)

datatype Birthday = Birthday (birthday_value: pystr)

definition is_valid_phone :: "pystr \<Rightarrow> bool" where
  "is_valid_phone phone = (isdigit phone \<and> length phone = 10)"

definition invalid_phone_msg :: pystr where
  "invalid_phone_msg = lit ''Invalid phone number format. Phone should consist of 10 digits.''"

definition Phone_init :: "pystr \<Rightarrow> error + Phone" where
  "Phone_init v = (if \<not> is_valid_phone v then Inl (ValueError invalid_phone_msg)
                   else Inr (Phone v))"

section \<open>Record: the phone list\<close>

record Record =
  name :: Name
  phones :: "Phone list"
  birthday :: "Birthday option"

definition Record_init :: "pystr \<Rightarrow> Record" where
  "Record_init n = \<lparr>name = Name n, phones = [], birthday = None\<rparr>"

text \<open>
  A method that mutates its object returns the outcome together with the object as it is
  after the call, also when the call raises: an exception does not undo earlier writes.
\<close>

definition add_phone :: "pystr \<Rightarrow> Record \<Rightarrow> (error + unit) \<times> Record" where
  "add_phone phone self =
     (case Phone_init phone of
        Inl e \<Rightarrow> (Inl e, self)
      | Inr p \<Rightarrow> (Inr (), self\<lparr>phones := phones self @ [p]\<rparr>))"

text \<open>
  \<open>remove_phone\<close> returns \<open>self\<close> when it removed a phone and \<open>None\<close> otherwise; the
  Boolean says which.
\<close>

definition remove_phone :: "pystr \<Rightarrow> Record \<Rightarrow> bool \<times> Record" where
  "remove_phone phone self =
     (if phone \<in> set (map phone_value (phones self))
      then (True, self\<lparr>phones := remove1 (Phone phone) (phones self)\<rparr>)
      else (False, self))"

text \<open>The loop of \<open>edit_phone\<close> over \<open>enumerate(self.phones)\<close>, from index \<open>i\<close> on.\<close>

function edit_phone_loop ::
  "pystr \<Rightarrow> pystr \<Rightarrow> Phone list \<Rightarrow> nat \<Rightarrow> (error + unit) \<times> Phone list" where
  "edit_phone_loop old_phone new_phone ps i =
     (if i < length ps then
        (if phone_value (ps ! i) = old_phone then
           (case Phone_init new_phone of
              Inl e \<Rightarrow> (Inl e, ps)
            | Inr p \<Rightarrow> (Inr (), ps[i := p]))
         else edit_phone_loop old_phone new_phone ps (Suc i))
      else (Inl (ValueError (lit ''Phone number not found'')), ps))"
  by pat_completeness auto
termination
  by (relation "measure (\<lambda>(old_phone, new_phone, ps, i). length ps - i)") auto

declare edit_phone_loop.simps [simp del]

definition edit_phone :: "pystr \<Rightarrow> pystr \<Rightarrow> Record \<Rightarrow> (error + unit) \<times> Record" where
  "edit_phone old_phone new_phone self =
     (case edit_phone_loop old_phone new_phone (phones self) 0 of
        (res, ps) \<Rightarrow> (res, self\<lparr>phones := ps\<rparr>))"

text \<open>The index of the first phone whose value is \<open>v\<close>, or the length when there is none.\<close>

definition first_index :: "pystr \<Rightarrow> Phone list \<Rightarrow> nat" where
  "first_index v ps = length (takeWhile (\<lambda>p. phone_value p \<noteq> v) ps)"

section \<open>AddressBook: an insertion-ordered dictionary\<close>

text \<open>
  \<open>AddressBook\<close> is a \<open>UserDict\<close>; its \<open>data\<close> is a Python dictionary, which keeps its keys
  in insertion order and, on assignment to an existing key, replaces the value where it
  stands. That is \<open>AList.update\<close> on an association list.
\<close>

type_synonym AddressBook = "(pystr \<times> Record) list"

definition add_record :: "Record \<Rightarrow> AddressBook \<Rightarrow> AddressBook" where
  "add_record rec data = AList.update (name_value (name rec)) rec data"

definition find_record :: "pystr \<Rightarrow> AddressBook \<Rightarrow> Record option" where
  "find_record n data = map_of data n"

text \<open>
  A record handed out by \<open>find\<close> is the object the book holds, so a method called on it
  changes the book's entry: \<open>store\<close> writes the object's new state back under its key.
\<close>

definition store :: "pystr \<Rightarrow> Record \<Rightarrow> AddressBook \<Rightarrow> AddressBook" where
  "store n r data = AList.update n r data"

section \<open>The datetime library\<close>

record datetime =
  year :: int
  month :: int
  day :: int
  hour :: int
  minute :: int
  second :: int
  microsecond :: int

definition is_leap :: "int \<Rightarrow> bool" where
  "is_leap y = (y mod 4 = 0 \<and> (y mod 100 \<noteq> 0 \<or> y mod 400 = 0))"

definition days_in_month :: "int \<Rightarrow> int \<Rightarrow> int" where
  "days_in_month y m =
     (if m = 2 then (if is_leap y then 29 else 28)
      else if m = 4 \<or> m = 6 \<or> m = 9 \<or> m = 11 then 30 else 31)"

definition days_before_year :: "int \<Rightarrow> int" where
  "days_before_year y = (y - 1) * 365 + (y - 1) div 4 - (y - 1) div 100 + (y - 1) div 400"

definition days_before_month :: "int \<Rightarrow> int \<Rightarrow> int" where
  "days_before_month y m = sum_list (map (days_in_month y) [1..m - 1])"

definition toordinal :: "datetime \<Rightarrow> int" where
  "toordinal dt = days_before_year (year dt) + days_before_month (year dt) (month dt) + day dt"

text \<open>Monday is 0, Saturday 5, Sunday 6.\<close>

definition weekday :: "datetime \<Rightarrow> int" where
  "weekday dt = (toordinal dt + 6) mod 7"

fun digits10 :: "nat \<Rightarrow> pystr" where
  "digits10 n = (if n < 10 then [48 + n] else digits10 (n div 10) @ [48 + n mod 10])"

declare digits10.simps [simp del]

definition str_int :: "int \<Rightarrow> pystr" where
  "str_int i = (if i < 0 then 45 # digits10 (nat (- i)) else digits10 (nat i))"

text \<open>
  The check every \<open>datetime\<close> constructor and \<open>replace\<close> makes on the date fields
  (\<open>MINYEAR\<close> is 1 and \<open>MAXYEAR\<close> is 9999), with the messages of the C implementation.
\<close>

definition check_date_fields :: "int \<Rightarrow> int \<Rightarrow> int \<Rightarrow> error + unit" where
  "check_date_fields y m d =
     (if \<not> (1 \<le> y \<and> y \<le> 9999) then
        Inl (ValueError (lit ''year '' @ str_int y @ lit '' is out of range''))
      else if \<not> (1 \<le> m \<and> m \<le> 12) then Inl (ValueError (lit ''month must be in 1..12''))
      else if \<not> (1 \<le> d \<and> d \<le> days_in_month y m) then
        Inl (ValueError (lit ''day is out of range for month''))
      else Inr ())"

definition replace_year :: "datetime \<Rightarrow> int \<Rightarrow> error + datetime" where
  "replace_year dt y =
     (case check_date_fields y (month dt) (day dt) of
        Inl e \<Rightarrow> Inl e
      | Inr _ \<Rightarrow> Inr (dt\<lparr>year := y\<rparr>))"

text \<open>Two naive datetimes compare as the tuples of their fields, lexicographically.\<close>

fun lex_less :: "int list \<Rightarrow> int list \<Rightarrow> bool" where
  "lex_less (x # xs) (y # ys) = (x < y \<or> (x = y \<and> lex_less xs ys))"
| "lex_less [] (y # ys) = True"
| "lex_less xs [] = False"

definition dt_fields :: "datetime \<Rightarrow> int list" where
  "dt_fields dt = [year dt, month dt, day dt, hour dt, minute dt, second dt, microsecond dt]"

definition dt_less :: "datetime \<Rightarrow> datetime \<Rightarrow> bool" where
  "dt_less a b = lex_less (dt_fields a) (dt_fields b)"

text \<open>
  \<open>(a - b).days\<close>: the difference is a \<open>timedelta\<close>, normalised so that its seconds and
  microseconds are not negative; its \<open>days\<close> is the whole difference in microseconds
  divided by the microseconds of a day, rounded down.
\<close>

definition sub_days :: "datetime \<Rightarrow> datetime \<Rightarrow> int" where
  "sub_days a b =
     (let days1 = toordinal a;
          days2 = toordinal b;
          secs1 = second a + minute a * 60 + hour a * 3600;
          secs2 = second b + minute b * 60 + hour b * 3600
      in ((days1 - days2) * 86400000000 + (secs1 - secs2) * 1000000
            + (microsecond a - microsecond b)) div 86400000000)"

text \<open>
  \<open>dt + timedelta(days=n)\<close> is the date \<open>n\<close> calendar days later at the same time of day;
  it raises \<open>OverflowError\<close> when that date lies beyond 31.12.9999.
\<close>

definition next_day :: "datetime \<Rightarrow> datetime" where
  "next_day dt =
     (if day dt < days_in_month (year dt) (month dt) then dt\<lparr>day := day dt + 1\<rparr>
      else if month dt < 12 then dt\<lparr>month := month dt + 1, day := 1\<rparr>
      else dt\<lparr>year := year dt + 1, month := 1, day := 1\<rparr>)"

fun add_days :: "datetime \<Rightarrow> nat \<Rightarrow> error + datetime" where
  "add_days dt 0 = Inr dt"
| "add_days dt (Suc n) =
     (if year (next_day dt) > 9999 then Inl (OverflowError (lit ''date value out of range''))
      else add_days (next_day dt) n)"

text \<open>
  \<open>strftime("%d.%m.%Y")\<close>: day and month are padded to two digits. The year is printed by
  the platform's C library, which on Linux does not pad a year below 1000.
\<close>

definition zero_pad2 :: "int \<Rightarrow> pystr" where
  "zero_pad2 i = (if length (str_int i) < 2 then 48 # str_int i else str_int i)"

definition strftime :: "datetime \<Rightarrow> pystr" where
  "strftime dt = zero_pad2 (day dt) @ lit ''.'' @ zero_pad2 (month dt) @ lit ''.''
                   @ str_int (year dt)"

section \<open>strptime with the format %d.%m.%Y\<close>

text \<open>
  \<open>strptime\<close> translates the format into a regular expression, here
  \<^verbatim>\<open>(?P<d>3[0-1]|[1-2]\d|0[1-9]|[1-9]| [1-9])\.(?P<m>1[0-2]|0[1-9]|[1-9])\.(?P<Y>\d\d\d\d)\<close>,
  and matches it at the start of the text. A matcher returns every way of matching a
  prefix, as the matched text with the rest, in the order in which a backtracking engine
  tries them; the engine's match is the first element.
\<close>

type_synonym matcher = "pystr \<Rightarrow> (pystr \<times> pystr) list"

definition re_char :: "(nat \<Rightarrow> bool) \<Rightarrow> matcher" where
  "re_char P s = (case s of [] \<Rightarrow> [] | c # r \<Rightarrow> if P c then [([c], r)] else [])"

definition re_seq :: "matcher \<Rightarrow> matcher \<Rightarrow> matcher" where
  "re_seq m1 m2 s = concat (map (\<lambda>(x, r). map (\<lambda>(y, r'). (x @ y, r')) (m2 r)) (m1 s))"

definition re_alt :: "matcher list \<Rightarrow> matcher" where
  "re_alt ms s = concat (map (\<lambda>m. m s) ms)"

definition in_range :: "nat \<Rightarrow> nat \<Rightarrow> nat \<Rightarrow> bool" where
  "in_range a b c = (a \<le> c \<and> c \<le> b)"

definition re_d :: matcher where
  "re_d = re_alt [re_seq (re_char (in_range 51 51)) (re_char (in_range 48 49)),
                  re_seq (re_char (in_range 49 50)) (re_char is_decimal),
                  re_seq (re_char (in_range 48 48)) (re_char (in_range 49 57)),
                  re_char (in_range 49 57),
                  re_seq (re_char (in_range 32 32)) (re_char (in_range 49 57))]"

definition re_m :: matcher where
  "re_m = re_alt [re_seq (re_char (in_range 49 49)) (re_char (in_range 48 50)),
                  re_seq (re_char (in_range 48 48)) (re_char (in_range 49 57)),
                  re_char (in_range 49 57)]"

definition re_Y :: matcher where
  "re_Y = re_seq (re_char is_decimal)
            (re_seq (re_char is_decimal) (re_seq (re_char is_decimal) (re_char is_decimal)))"

definition re_dot :: matcher where
  "re_dot = re_char (in_range 46 46)"

text \<open>The matches of the whole pattern: the groups \<open>d\<close>, \<open>m\<close>, \<open>Y\<close> and the unmatched rest.\<close>

definition format_regex :: "pystr \<Rightarrow> (pystr \<times> pystr \<times> pystr \<times> pystr) list" where
  "format_regex s =
     concat (map (\<lambda>(d, r1). concat (map (\<lambda>(p1, r2). concat (map (\<lambda>(m, r3).
       concat (map (\<lambda>(p2, r4). map (\<lambda>(y, r5). (d, m, y, r5)) (re_Y r4)) (re_dot r3)))
         (re_m r2))) (re_dot r1))) (re_d s))"

text \<open>
  \<open>int\<close> on a matched group: leading blanks are skipped (only the day group can start with
  one), and every remaining character is a decimal digit.
\<close>

definition py_int :: "pystr \<Rightarrow> int" where
  "py_int s = foldl (\<lambda>a c. 10 * a + int (decimal_value c)) 0 (dropWhile (\<lambda>c. c = 32) s)"

text \<open>
  \<open>repr\<close> of a \<open>str\<close>, which the message of a failed match quotes the input with. The
  text is put between apostrophes, or between double quotes when it contains an apostrophe
  and no double quote; the quote character and the backslash are escaped, tab, line feed
  and carriage return are written \<open>\t\<close>, \<open>\n\<close>, \<open>\r\<close>, and every other character that is not
  printable is written as a hexadecimal escape of two, four or eight digits. The table
  lists the ranges of the code points from 128 on that \<open>str.isprintable\<close> rejects.
\<close>

definition nonprintable_ranges :: "(nat \<times> nat) list" where
  "nonprintable_ranges = [
    (128, 160), (173, 173), (888, 889), (896, 899), (907, 907), (909, 909), (930, 930),
     (1328, 1328), (1367, 1368), (1419, 1420), (1424, 1424), (1480, 1487), (1515, 1518),
     (1525, 1541), (1564, 1564), (1757, 1757), (1806, 1807), (1867, 1868), (1970, 1983),
     (2043, 2044), (2094, 2095), (2111, 2111), (2140, 2141), (2143, 2143), (2155, 2159),
     (2191, 2199), (2274, 2274), (2436, 2436), (2445, 2446), (2449, 2450), (2473, 2473),
     (2481, 2481), (2483, 2485), (2490, 2491), (2501, 2502), (2505, 2506), (2511, 2518),
     (2520, 2523), (2526, 2526), (2532, 2533), (2559, 2560), (2564, 2564), (2571, 2574),
     (2577, 2578), (2601, 2601), (2609, 2609), (2612, 2612), (2615, 2615), (2618, 2619),
     (2621, 2621), (2627, 2630), (2633, 2634), (2638, 2640), (2642, 2648), (2653, 2653),
     (2655, 2661), (2679, 2688), (2692, 2692), (2702, 2702), (2706, 2706), (2729, 2729),
     (2737, 2737), (2740, 2740), (2746, 2747), (2758, 2758), (2762, 2762), (2766, 2767),
     (2769, 2783), (2788, 2789), (2802, 2808), (2816, 2816), (2820, 2820), (2829, 2830),
     (2833, 2834), (2857, 2857), (2865, 2865), (2868, 2868), (2874, 2875), (2885, 2886),
     (2889, 2890), (2894, 2900), (2904, 2907), (2910, 2910), (2916, 2917), (2936, 2945),
     (2948, 2948), (2955, 2957), (2961, 2961), (2966, 2968), (2971, 2971), (2973, 2973),
     (2976, 2978), (2981, 2983), (2987, 2989), (3002, 3005), (3011, 3013), (3017, 3017),
     (3022, 3023), (3025, 3030), (3032, 3045), (3067, 3071), (3085, 3085), (3089, 3089),
     (3113, 3113), (3130, 3131), (3141, 3141), (3145, 3145), (3150, 3156), (3159, 3159),
     (3163, 3164), (3166, 3167), (3172, 3173), (3184, 3190), (3213, 3213), (3217, 3217),
     (3241, 3241), (3252, 3252), (3258, 3259), (3269, 3269), (3273, 3273), (3278, 3284),
     (3287, 3292), (3295, 3295), (3300, 3301), (3312, 3312), (3315, 3327), (3341, 3341),
     (3345, 3345), (3397, 3397), (3401, 3401), (3408, 3411), (3428, 3429), (3456, 3456),
     (3460, 3460), (3479, 3481), (3506, 3506), (3516, 3516), (3518, 3519), (3527, 3529),
     (3531, 3534), (3541, 3541), (3543, 3543), (3552, 3557), (3568, 3569), (3573, 3584),
     (3643, 3646), (3676, 3712), (3715, 3715), (3717, 3717), (3723, 3723), (3748, 3748),
     (3750, 3750), (3774, 3775), (3781, 3781), (3783, 3783), (3790, 3791), (3802, 3803),
     (3808, 3839), (3912, 3912), (3949, 3952), (3992, 3992), (4029, 4029), (4045, 4045),
     (4059, 4095), (4294, 4294), (4296, 4300), (4302, 4303), (4681, 4681), (4686, 4687),
     (4695, 4695), (4697, 4697), (4702, 4703), (4745, 4745), (4750, 4751), (4785, 4785),
     (4790, 4791), (4799, 4799), (4801, 4801), (4806, 4807), (4823, 4823), (4881, 4881),
     (4886, 4887), (4955, 4956), (4989, 4991), (5018, 5023), (5110, 5111), (5118, 5119),
     (5760, 5760), (5789, 5791), (5881, 5887), (5910, 5918), (5943, 5951), (5972, 5983),
     (5997, 5997), (6001, 6001), (6004, 6015), (6110, 6111), (6122, 6127), (6138, 6143),
     (6158, 6158), (6170, 6175), (6265, 6271), (6315, 6319), (6390, 6399), (6431, 6431),
     (6444, 6447), (6460, 6463), (6465, 6467), (6510, 6511), (6517, 6527), (6572, 6575),
     (6602, 6607), (6619, 6621), (6684, 6685), (6751, 6751), (6781, 6782), (6794, 6799),
     (6810, 6815), (6830, 6831), (6863, 6911), (6989, 6991), (7039, 7039), (7156, 7163),
     (7224, 7226), (7242, 7244), (7305, 7311), (7355, 7356), (7368, 7375), (7419, 7423),
     (7958, 7959), (7966, 7967), (8006, 8007), (8014, 8015), (8024, 8024), (8026, 8026),
     (8028, 8028), (8030, 8030), (8062, 8063), (8117, 8117), (8133, 8133), (8148, 8149),
     (8156, 8156), (8176, 8177), (8181, 8181), (8191, 8207), (8232, 8239), (8287, 8303),
     (8306, 8307), (8335, 8335), (8349, 8351), (8385, 8399), (8433, 8447), (8588, 8591),
     (9255, 9279), (9291, 9311), (11124, 11125), (11158, 11158), (11508, 11512),
     (11558, 11558), (11560, 11564), (11566, 11567), (11624, 11630), (11633, 11646),
     (11671, 11679), (11687, 11687), (11695, 11695), (11703, 11703), (11711, 11711),
     (11719, 11719), (11727, 11727), (11735, 11735), (11743, 11743), (11870, 11903),
     (11930, 11930), (12020, 12031), (12246, 12271), (12284, 12288), (12352, 12352),
     (12439, 12440), (12544, 12548), (12592, 12592), (12687, 12687), (12772, 12783),
     (12831, 12831), (42125, 42127), (42183, 42191), (42540, 42559), (42744, 42751),
     (42955, 42959), (42962, 42962), (42964, 42964), (42970, 42993), (43053, 43055),
     (43066, 43071), (43128, 43135), (43206, 43213), (43226, 43231), (43348, 43358),
     (43389, 43391), (43470, 43470), (43482, 43485), (43519, 43519), (43575, 43583),
     (43598, 43599), (43610, 43611), (43715, 43738), (43767, 43776), (43783, 43784),
     (43791, 43792), (43799, 43807), (43815, 43815), (43823, 43823), (43884, 43887),
     (44014, 44015), (44026, 44031), (55204, 55215), (55239, 55242), (55292, 63743),
     (64110, 64111), (64218, 64255), (64263, 64274), (64280, 64284), (64311, 64311),
     (64317, 64317), (64319, 64319), (64322, 64322), (64325, 64325), (64451, 64466),
     (64912, 64913), (64968, 64974), (64976, 65007), (65050, 65055), (65107, 65107),
     (65127, 65127), (65132, 65135), (65141, 65141), (65277, 65280), (65471, 65473),
     (65480, 65481), (65488, 65489), (65496, 65497), (65501, 65503), (65511, 65511),
     (65519, 65531), (65534, 65535), (65548, 65548), (65575, 65575), (65595, 65595),
     (65598, 65598), (65614, 65615), (65630, 65663), (65787, 65791), (65795, 65798),
     (65844, 65846), (65935, 65935), (65949, 65951), (65953, 65999), (66046, 66175),
     (66205, 66207), (66257, 66271), (66300, 66303), (66340, 66348), (66379, 66383),
     (66427, 66431), (66462, 66462), (66500, 66503), (66518, 66559), (66718, 66719),
     (66730, 66735), (66772, 66775), (66812, 66815), (66856, 66863), (66916, 66926),
     (66939, 66939), (66955, 66955), (66963, 66963), (66966, 66966), (66978, 66978),
     (66994, 66994), (67002, 67002), (67005, 67071), (67383, 67391), (67414, 67423),
     (67432, 67455), (67462, 67462), (67505, 67505), (67515, 67583), (67590, 67591),
     (67593, 67593), (67638, 67638), (67641, 67643), (67645, 67646), (67670, 67670),
     (67743, 67750), (67760, 67807), (67827, 67827), (67830, 67834), (67868, 67870),
     (67898, 67902), (67904, 67967), (68024, 68027), (68048, 68049), (68100, 68100),
     (68103, 68107), (68116, 68116), (68120, 68120), (68150, 68151), (68155, 68158),
     (68169, 68175), (68185, 68191), (68256, 68287), (68327, 68330), (68343, 68351),
     (68406, 68408), (68438, 68439), (68467, 68471), (68498, 68504), (68509, 68520),
     (68528, 68607), (68681, 68735), (68787, 68799), (68851, 68857), (68904, 68911),
     (68922, 69215), (69247, 69247), (69290, 69290), (69294, 69295), (69298, 69375),
     (69416, 69423), (69466, 69487), (69514, 69551), (69580, 69599), (69623, 69631),
     (69710, 69713), (69750, 69758), (69821, 69821), (69827, 69839), (69865, 69871),
     (69882, 69887), (69941, 69941), (69960, 69967), (70007, 70015), (70112, 70112),
     (70133, 70143), (70162, 70162), (70207, 70271), (70279, 70279), (70281, 70281),
     (70286, 70286), (70302, 70302), (70314, 70319), (70379, 70383), (70394, 70399),
     (70404, 70404), (70413, 70414), (70417, 70418), (70441, 70441), (70449, 70449),
     (70452, 70452), (70458, 70458), (70469, 70470), (70473, 70474), (70478, 70479),
     (70481, 70486), (70488, 70492), (70500, 70501), (70509, 70511), (70517, 70655),
     (70748, 70748), (70754, 70783), (70856, 70863), (70874, 71039), (71094, 71095),
     (71134, 71167), (71237, 71247), (71258, 71263), (71277, 71295), (71354, 71359),
     (71370, 71423), (71451, 71452), (71468, 71471), (71495, 71679), (71740, 71839),
     (71923, 71934), (71943, 71944), (71946, 71947), (71956, 71956), (71959, 71959),
     (71990, 71990), (71993, 71994), (72007, 72015), (72026, 72095), (72104, 72105),
     (72152, 72153), (72165, 72191), (72264, 72271), (72355, 72367), (72441, 72703),
     (72713, 72713), (72759, 72759), (72774, 72783), (72813, 72815), (72848, 72849),
     (72872, 72872), (72887, 72959), (72967, 72967), (72970, 72970), (73015, 73017),
     (73019, 73019), (73022, 73022), (73032, 73039), (73050, 73055), (73062, 73062),
     (73065, 73065), (73103, 73103), (73106, 73106), (73113, 73119), (73130, 73439),
     (73465, 73647), (73649, 73663), (73714, 73726), (74650, 74751), (74863, 74863),
     (74869, 74879), (75076, 77711), (77811, 77823), (78895, 82943), (83527, 92159),
     (92729, 92735), (92767, 92767), (92778, 92781), (92863, 92863), (92874, 92879),
     (92910, 92911), (92918, 92927), (92998, 93007), (93018, 93018), (93026, 93026),
     (93048, 93052), (93072, 93759), (93851, 93951), (94027, 94030), (94088, 94094),
     (94112, 94175), (94181, 94191), (94194, 94207), (100344, 100351), (101590, 101631),
     (101641, 110575), (110580, 110580), (110588, 110588), (110591, 110591),
     (110883, 110927), (110931, 110947), (110952, 110959), (111356, 113663),
     (113771, 113775), (113789, 113791), (113801, 113807), (113818, 113819),
     (113824, 118527), (118574, 118575), (118599, 118607), (118724, 118783),
     (119030, 119039), (119079, 119080), (119155, 119162), (119275, 119295),
     (119366, 119519), (119540, 119551), (119639, 119647), (119673, 119807),
     (119893, 119893), (119965, 119965), (119968, 119969), (119971, 119972),
     (119975, 119976), (119981, 119981), (119994, 119994), (119996, 119996),
     (120004, 120004), (120070, 120070), (120075, 120076), (120085, 120085),
     (120093, 120093), (120122, 120122), (120127, 120127), (120133, 120133),
     (120135, 120137), (120145, 120145), (120486, 120487), (120780, 120781),
     (121484, 121498), (121504, 121504), (121520, 122623), (122655, 122879),
     (122887, 122887), (122905, 122906), (122914, 122914), (122917, 122917),
     (122923, 123135), (123181, 123183), (123198, 123199), (123210, 123213),
     (123216, 123535), (123567, 123583), (123642, 123646), (123648, 124895),
     (124903, 124903), (124908, 124908), (124911, 124911), (124927, 124927),
     (125125, 125126), (125143, 125183), (125260, 125263), (125274, 125277),
     (125280, 126064), (126133, 126208), (126270, 126463), (126468, 126468),
     (126496, 126496), (126499, 126499), (126501, 126502), (126504, 126504),
     (126515, 126515), (126520, 126520), (126522, 126522), (126524, 126529),
     (126531, 126534), (126536, 126536), (126538, 126538), (126540, 126540),
     (126544, 126544), (126547, 126547), (126549, 126550), (126552, 126552),
     (126554, 126554), (126556, 126556), (126558, 126558), (126560, 126560),
     (126563, 126563), (126565, 126566), (126571, 126571), (126579, 126579),
     (126584, 126584), (126589, 126589), (126591, 126591), (126602, 126602),
     (126620, 126624), (126628, 126628), (126634, 126634), (126652, 126703),
     (126706, 126975), (127020, 127023), (127124, 127135), (127151, 127152),
     (127168, 127168), (127184, 127184), (127222, 127231), (127406, 127461),
     (127491, 127503), (127548, 127551), (127561, 127567), (127570, 127583),
     (127590, 127743), (128728, 128732), (128749, 128751), (128765, 128767),
     (128884, 128895), (128985, 128991), (129004, 129007), (129009, 129023),
     (129036, 129039), (129096, 129103), (129114, 129119), (129160, 129167),
     (129198, 129199), (129202, 129279), (129620, 129631), (129646, 129647),
     (129653, 129655), (129661, 129663), (129671, 129679), (129709, 129711),
     (129723, 129727), (129734, 129743), (129754, 129759), (129768, 129775),
     (129783, 129791), (129939, 129939), (129995, 130031), (130042, 131071),
     (173792, 173823), (177977, 177983), (178206, 178207), (183970, 183983),
     (191457, 194559), (195102, 196607), (201547, 917759), (918000, 1114111)]"

definition isprintable_char :: "nat \<Rightarrow> bool" where
  "isprintable_char c =
     (if c < 128 then 32 \<le> c \<and> c < 127
      else \<not> list_ex (\<lambda>(a, b). a \<le> c \<and> c \<le> b) nonprintable_ranges)"

definition hex_digit :: "nat \<Rightarrow> nat" where
  "hex_digit d = (if d < 10 then 48 + d else 87 + d)"

fun hex_pad :: "nat \<Rightarrow> nat \<Rightarrow> pystr" where
  "hex_pad 0 c = []"
| "hex_pad (Suc n) c = hex_pad n (c div 16) @ [hex_digit (c mod 16)]"

definition repr_char :: "nat \<Rightarrow> nat \<Rightarrow> pystr" where
  "repr_char quote c =
     (if c = quote \<or> c = 92 then [92, c]
      else if c = 9 then [92, 116]
      else if c = 10 then [92, 110]
      else if c = 13 then [92, 114]
      else if isprintable_char c then [c]
      else if c \<le> 255 then [92, 120] @ hex_pad 2 c
      else if c \<le> 65535 then [92, 117] @ hex_pad 4 c
      else [92, 85] @ hex_pad 8 c)"

definition py_repr :: "pystr \<Rightarrow> pystr" where
  "py_repr s =
     (let quote = (if 39 \<in> set s \<and> 34 \<notin> set s then 34 else 39)
      in [quote] @ concat (map (repr_char quote) s) @ [quote])"

definition strptime :: "pystr \<Rightarrow> error + datetime" where
  "strptime data_string =
     (case format_regex data_string of
        [] \<Rightarrow> Inl (ValueError (lit ''time data '' @ py_repr data_string
                       @ lit '' does not match format '' @ py_repr (lit ''%d.%m.%Y'')))
      | (d, m, y, rest) # _ \<Rightarrow>
          if rest \<noteq> [] then Inl (ValueError (lit ''unconverted data remains: '' @ rest))
          else (case check_date_fields (py_int y) (py_int m) (py_int d) of
                  Inl e \<Rightarrow> Inl e
                | Inr _ \<Rightarrow> Inr \<lparr>year = py_int y, month = py_int m, day = py_int d,
                               hour = 0, minute = 0, second = 0, microsecond = 0\<rparr>))"

definition invalid_date_msg :: pystr where
  "invalid_date_msg = lit ''Invalid date format. Use DD.MM.YYYY''"

definition Birthday_init :: "pystr \<Rightarrow> error + Birthday" where
  "Birthday_init v =
     (case strptime v of
        Inl (ValueError m) \<Rightarrow> Inl (ValueError invalid_date_msg)
      | Inl e \<Rightarrow> Inl e
      | Inr dt \<Rightarrow> Inr (Birthday v))"

section \<open>Record: the birthday\<close>

definition Record_add_birthday :: "pystr \<Rightarrow> Record \<Rightarrow> (error + unit) \<times> Record" where
  "Record_add_birthday v self =
     (case Birthday_init v of
        Inl e \<Rightarrow> (Inl e, self)
      | Inr b \<Rightarrow> (Inr (), self\<lparr>birthday := Some b\<rparr>))"

text \<open>
  The same four lines stand in \<open>get_days_to_birthday\<close> and in \<open>get_upcoming_birthdays\<close>:
  parse the stored text, move the date to the year of \<open>today\<close>, and to the year after when
  that lies before \<open>today\<close>. \<open>today\<close> is what \<open>datetime.today()\<close> returned, time of day
  included.
\<close>

definition next_birthday_date :: "datetime \<Rightarrow> pystr \<Rightarrow> error + datetime" where
  "next_birthday_date today v =
     (case strptime v of
        Inl e \<Rightarrow> Inl e
      | Inr birthday_date \<Rightarrow>
          (case replace_year birthday_date (year today) of
             Inl e \<Rightarrow> Inl e
           | Inr next_birthday \<Rightarrow>
               if dt_less next_birthday today
               then replace_year next_birthday (year today + 1)
               else Inr next_birthday))"

text \<open>\<open>today\<close> is the reading of the clock the method takes when a birthday is set.\<close>

definition get_days_to_birthday :: "datetime \<Rightarrow> Record \<Rightarrow> error + int option" where
  "get_days_to_birthday today self =
     (case birthday self of
        None \<Rightarrow> Inr None
      | Some b \<Rightarrow>
          (case next_birthday_date today (birthday_value b) of
             Inl e \<Rightarrow> Inl e
           | Inr next_birthday \<Rightarrow> Inr (Some (sub_days next_birthday today))))"

section \<open>AddressBook: upcoming birthdays\<close>

record item =
  item_name :: pystr
  item_birthday :: pystr

definition weekend_shift :: "datetime \<Rightarrow> error + datetime" where
  "weekend_shift next_birthday =
     (if weekday next_birthday = 5 then add_days next_birthday 2
      else if weekday next_birthday = 6 then add_days next_birthday 1
      else Inr next_birthday)"

text \<open>
  The body of the loop for a record with a birthday \<open>b\<close>: \<open>today\<close> is the reading taken at
  the start of \<open>get_upcoming_birthdays\<close>, \<open>now\<close> the one \<open>get_days_to_birthday\<close> takes.
\<close>

definition upcoming_item :: "datetime \<Rightarrow> datetime \<Rightarrow> int \<Rightarrow> Record \<Rightarrow> error + item option" where
  "upcoming_item today now days r =
     (case get_days_to_birthday now r of
        Inl e \<Rightarrow> Inl e
      | Inr None \<Rightarrow> Inr None
      | Inr (Some days_to_birthday) \<Rightarrow>
          if days_to_birthday \<le> days then
            (case next_birthday_date today (birthday_value (the (birthday r))) of
               Inl e \<Rightarrow> Inl e
             | Inr next_birthday \<Rightarrow>
                 (case weekend_shift next_birthday of
                    Inl e \<Rightarrow> Inl e
                  | Inr shifted \<Rightarrow>
                      Inr (Some \<lparr>item_name = name_value (name r),
                                 item_birthday = strftime shifted\<rparr>)))
          else Inr None)"

text \<open>
  The clock is a sequence of readings: \<open>clock 0\<close> is the first \<open>datetime.today()\<close> of the
  call, \<open>clock 1\<close> the next, and so on. A record without a birthday takes no reading.
\<close>

fun upcoming_loop ::
  "(nat \<Rightarrow> datetime) \<Rightarrow> nat \<Rightarrow> int \<Rightarrow> Record list \<Rightarrow> item list \<Rightarrow> error + item list" where
  "upcoming_loop clock n days [] upcoming_birthdays = Inr upcoming_birthdays"
| "upcoming_loop clock n days (r # rs) upcoming_birthdays =
     (case birthday r of
        None \<Rightarrow> upcoming_loop clock n days rs upcoming_birthdays
      | Some b \<Rightarrow>
          (case upcoming_item (clock 0) (clock n) days r of
             Inl e \<Rightarrow> Inl e
           | Inr None \<Rightarrow> upcoming_loop clock (Suc n) days rs upcoming_birthdays
           | Inr (Some it) \<Rightarrow>
               upcoming_loop clock (Suc n) days rs (upcoming_birthdays @ [it])))"

definition get_upcoming_birthdays ::
  "(nat \<Rightarrow> datetime) \<Rightarrow> int \<Rightarrow> AddressBook \<Rightarrow> error + item list" where
  "get_upcoming_birthdays clock days data = upcoming_loop clock 1 days (map snd data) []"


text \<open>A clock that shows the same instant at every reading.\<close>

definition fixed_clock :: "datetime \<Rightarrow> nat \<Rightarrow> datetime" where
  "fixed_clock t n = t"


section \<open>Command handlers\<close>

text \<open>
  The decorator: the handler's \<open>KeyError\<close>, \<open>ValueError\<close> or \<open>IndexError\<close> becomes the
  returned text \<open>str(e)\<close>; any other exception passes through. What the handler did to the
  book before it raised stays done.
\<close>

type_synonym handler = "pystr list \<Rightarrow> AddressBook \<Rightarrow> (error + pystr) \<times> AddressBook"

definition input_error :: "handler \<Rightarrow> handler" where
  "input_error handler args book =
     (case handler args book of
        (Inl (KeyError m), book') \<Rightarrow> (Inr m, book')
      | (Inl (ValueError m), book') \<Rightarrow> (Inr m, book')
      | (Inl (IndexError m), book') \<Rightarrow> (Inr m, book')
      | (Inl e, book') \<Rightarrow> (Inl e, book')
      | (Inr message, book') \<Rightarrow> (Inr message, book'))"

definition str_join :: "pystr \<Rightarrow> pystr list \<Rightarrow> pystr" where
  "str_join sep xs = (case xs of [] \<Rightarrow> [] | x # r \<Rightarrow> x @ concat (map (\<lambda>y. sep @ y) r))"

definition add_contact_body :: handler where
  "add_contact_body args book =
     (case args of
        n # phone # rest \<Rightarrow>
          (let (r, book1, message) =
                 (case find_record n book of
                    None \<Rightarrow> (Record_init n, add_record (Record_init n) book,
                              lit ''Contact added.'')
                  | Some r \<Rightarrow> (r, book, lit ''Contact updated.''))
           in if phone \<noteq> [] then
                (case add_phone phone r of
                   (Inl e, r') \<Rightarrow> (Inl e, store n r' book1)
                 | (Inr u, r') \<Rightarrow> (Inr message, store n r' book1))
              else (Inr message, book1))
      | _ \<Rightarrow>
          (Inl (ValueError (lit ''not enough values to unpack (expected at least 2, got ''
                             @ str_int (int (length args)) @ lit '')'')), book))"

definition change_contact_body :: handler where
  "change_contact_body args book =
     (case args of
        [n, old_phone, new_phone] \<Rightarrow>
          (case find_record n book of
             Some r \<Rightarrow>
               (case edit_phone old_phone new_phone r of
                  (Inl e, r') \<Rightarrow> (Inl e, store n r' book)
                | (Inr u, r') \<Rightarrow>
                    (Inr (lit ''Phone number updated for '' @ n @ lit ''.''), store n r' book))
           | None \<Rightarrow> (Inr (lit ''Contact not found.''), book))
      | _ \<Rightarrow>
          (if length args < 3 then
             Inl (ValueError (lit ''not enough values to unpack (expected 3, got ''
                               @ str_int (int (length args)) @ lit '')''))
           else Inl (ValueError (lit ''too many values to unpack (expected 3)'')), book))"

definition show_phone_body :: handler where
  "show_phone_body args book =
     (case args of
        [] \<Rightarrow> (Inl (IndexError (lit ''list index out of range'')), book)
      | n # rest \<Rightarrow>
          (case find_record n book of
             Some r \<Rightarrow> (Inr (str_join (lit '', '') (map phone_value (phones r))), book)
           | None \<Rightarrow> (Inr (lit ''Contact not found.''), book)))"

text \<open>
  \<open>show_all\<close> returns \<open>str(book)\<close>, which prints each record as an object with its memory
  address; \<open>book_repr\<close> stands for that text.
\<close>

definition show_all_body :: "(AddressBook \<Rightarrow> pystr) \<Rightarrow> handler" where
  "show_all_body book_repr args book = (Inr (book_repr book), book)"

definition add_birthday_body :: handler where
  "add_birthday_body args book =
     (case args of
        [n, b] \<Rightarrow>
          (case find_record n book of
             Some r \<Rightarrow>
               (case Record_add_birthday b r of
                  (Inl e, r') \<Rightarrow> (Inl e, store n r' book)
                | (Inr u, r') \<Rightarrow>
                    (Inr (lit ''Birthday added for '' @ n @ lit ''.''), store n r' book))
           | None \<Rightarrow> (Inr (lit ''Contact not found.''), book))
      | _ \<Rightarrow>
          (if length args < 2 then
             Inl (ValueError (lit ''not enough values to unpack (expected 2, got ''
                               @ str_int (int (length args)) @ lit '')''))
           else Inl (ValueError (lit ''too many values to unpack (expected 2)'')), book))"

definition show_birthday_body :: handler where
  "show_birthday_body args book =
     (case args of
        [] \<Rightarrow> (Inl (IndexError (lit ''list index out of range'')), book)
      | n # rest \<Rightarrow>
          (case find_record n book of
             Some r \<Rightarrow>
               (case birthday r of
                  Some b \<Rightarrow> (Inr (birthday_value b), book)
                | None \<Rightarrow> (Inr (lit ''Contact or birthday not found.''), book))
           | None \<Rightarrow> (Inr (lit ''Contact or birthday not found.''), book)))"

definition birthdays_body :: "(nat \<Rightarrow> datetime) \<Rightarrow> handler" where
  "birthdays_body clock args book =
     (case get_upcoming_birthdays clock 7 book of
        Inl e \<Rightarrow> (Inl e, book)
      | Inr upcoming_birthdays \<Rightarrow>
          if upcoming_birthdays = [] then (Inr (lit ''No birthdays in the next 7 days.''), book)
          else (Inr (str_join [10]
                       (map (\<lambda>it. item_name it @ lit '': '' @ item_birthday it)
                          upcoming_birthdays)), book))"

definition add_contact :: handler where
  "add_contact = input_error add_contact_body"

definition change_contact :: handler where
  "change_contact = input_error change_contact_body"

definition show_phone :: handler where
  "show_phone = input_error show_phone_body"

definition show_all :: "(AddressBook \<Rightarrow> pystr) \<Rightarrow> handler" where
  "show_all book_repr = input_error (show_all_body book_repr)"

definition add_birthday :: handler where
  "add_birthday = input_error add_birthday_body"

definition show_birthday :: handler where
  "show_birthday = input_error show_birthday_body"

definition birthdays :: "(nat \<Rightarrow> datetime) \<Rightarrow> handler" where
  "birthdays clock = input_error (birthdays_body clock)"

text \<open>The seven decorated handlers, to speak of all of them at once.\<close>

datatype command = AddContact | ChangeContact | ShowPhone | ShowAll | AddBirthday
  | ShowBirthday | Birthdays

fun handler_body :: "(AddressBook \<Rightarrow> pystr) \<Rightarrow> (nat \<Rightarrow> datetime) \<Rightarrow> command \<Rightarrow> handler" where
  "handler_body book_repr clock AddContact = add_contact_body"
| "handler_body book_repr clock ChangeContact = change_contact_body"
| "handler_body book_repr clock ShowPhone = show_phone_body"
| "handler_body book_repr clock ShowAll = show_all_body book_repr"
| "handler_body book_repr clock AddBirthday = add_birthday_body"
| "handler_body book_repr clock ShowBirthday = show_birthday_body"
| "handler_body book_repr clock Birthdays = birthdays_body clock"

fun handler_of :: "(AddressBook \<Rightarrow> pystr) \<Rightarrow> (nat \<Rightarrow> datetime) \<Rightarrow> command \<Rightarrow> handler" where
  "handler_of book_repr clock AddContact = add_contact"
| "handler_of book_repr clock ChangeContact = change_contact"
| "handler_of book_repr clock ShowPhone = show_phone"
| "handler_of book_repr clock ShowAll = show_all book_repr"
| "handler_of book_repr clock AddBirthday = add_birthday"
| "handler_of book_repr clock ShowBirthday = show_birthday"
| "handler_of book_repr clock Birthdays = birthdays clock"

section \<open>The command dispatcher\<close>

text \<open>\<open>str.split()\<close>: the maximal runs of characters that are not white space.\<close>

definition isspace :: "nat \<Rightarrow> bool" where
  "isspace c = (c \<in> set [9, 10, 11, 12, 13, 28, 29, 30, 31, 32, 133, 160, 5760, 8192, 8193,
     8194, 8195, 8196, 8197, 8198, 8199, 8200, 8201, 8202, 8232, 8233, 8239, 8287, 12288])"

fun split_from :: "pystr \<Rightarrow> pystr \<Rightarrow> pystr list" where
  "split_from cur [] = (if cur = [] then [] else [cur])"
| "split_from cur (c # cs) =
     (if isspace c then (if cur = [] then split_from [] cs else cur # split_from [] cs)
      else split_from (cur @ [c]) cs)"

definition str_split :: "pystr \<Rightarrow> pystr list" where
  "str_split s = split_from [] s"

text \<open>
  What \<open>process_command\<close> does to the outside: the calls it makes on the interface and the
  saving of the book. Its result is \<open>False\<close> when the command loop is to stop. An exception
  that leaves a handler leaves \<open>process_command\<close> too.
\<close>

datatype event = show_message pystr | show_contacts "Record list" | show_help
  | save_data AddressBook

definition show_result :: "(error + pystr) \<times> AddressBook \<Rightarrow> error + event list \<times> AddressBook \<times> bool" where
  "show_result res =
     (case res of
        (Inl e, book') \<Rightarrow> Inl e
      | (Inr message, book') \<Rightarrow> Inr ([show_message message], book', True))"

definition process_command ::
  "(nat \<Rightarrow> datetime) \<Rightarrow> pystr \<Rightarrow> pystr \<Rightarrow> AddressBook \<Rightarrow> error + event list \<times> AddressBook \<times> bool"
  where
  "process_command clock command args book =
     (if command = lit ''hello'' then Inr ([show_message (lit ''How can I help you?'')], book, True)
      else if command = lit ''add'' then show_result (add_contact (str_split args) book)
      else if command = lit ''change'' then show_result (change_contact (str_split args) book)
      else if command = lit ''phone'' then show_result (show_phone (str_split args) book)
      else if command = lit ''all'' then Inr ([show_contacts (map snd book)], book, True)
      else if command = lit ''add-birthday'' then
        show_result (add_birthday (str_split args) book)
      else if command = lit ''show-birthday'' then
        show_result (show_birthday (str_split args) book)
      else if command = lit ''birthdays'' then
        show_result (birthdays clock (str_split args) book)
      else if command = lit ''help'' then Inr ([show_help], book, True)
      else if command = lit ''close'' \<or> command = lit ''exit'' then
        Inr ([show_message (lit ''Good bye!''), save_data book], book, False)
      else Inr ([show_message
                   (lit ''Invalid command. Use 'help' to see available commands.'')],
                book, True))"

section \<open>The books a session can reach\<close>

text \<open>
  From the empty book: \<open>add_record\<close> with any record, any handler with any arguments, and
  any method of \<open>Record\<close> called on a record that \<open>find\<close> returned.
\<close>

inductive reachable :: "AddressBook \<Rightarrow> bool" where
  empty: "reachable []"
| add_record: "reachable book \<Longrightarrow> reachable (add_record r book)"
| handler: "reachable book \<Longrightarrow> reachable (snd (handler_of book_repr clock cmd args book))"
| found_add_phone:
    "reachable book \<Longrightarrow> find_record n book = Some r \<Longrightarrow>
     reachable (store n (snd (add_phone phone r)) book)"
| found_remove_phone:
    "reachable book \<Longrightarrow> find_record n book = Some r \<Longrightarrow>
     reachable (store n (snd (remove_phone phone r)) book)"
| found_edit_phone:
    "reachable book \<Longrightarrow> find_record n book = Some r \<Longrightarrow>
     reachable (store n (snd (edit_phone old_phone new_phone r)) book)"
| found_add_birthday:
    "reachable book \<Longrightarrow> find_record n book = Some r \<Longrightarrow>
     reachable (store n (snd (Record_add_birthday b r)) book)"

definition keys_are_names :: "AddressBook \<Rightarrow> bool" where
  "keys_are_names book = list_all (\<lambda>(k, r). k = name_value (name r)) book"

section \<open>Notions used in the statements\<close>

text \<open>The date fields that the constructors of \<open>datetime\<close> accept.\<close>

definition valid_date :: "datetime \<Rightarrow> bool" where
  "valid_date dt = (1 \<le> year dt \<and> year dt \<le> 9999 \<and> 1 \<le> month dt \<and> month dt \<le> 12
                     \<and> 1 \<le> day dt \<and> day dt \<le> days_in_month (year dt) (month dt))"


text \<open>The time of day of a \<open>datetime\<close>, in microseconds since midnight.\<close>

definition time_of_day :: "datetime \<Rightarrow> int" where
  "time_of_day dt = (second dt + minute dt * 60 + hour dt * 3600) * 1000000 + microsecond dt"

text \<open>The exceptions that \<open>input_error\<close> catches.\<close>

definition caught :: "error \<Rightarrow> bool" where
  "caught e = (case e of OverflowError m \<Rightarrow> False | _ \<Rightarrow> True)"

text \<open>
  The texts that the three groups of the pattern can match, and a real calendar date.
\<close>

definition day_text :: "pystr \<Rightarrow> bool" where
  "day_text d =
     (case d of
        [a] \<Rightarrow> in_range 49 57 a
      | [a, b] \<Rightarrow> (a = 51 \<and> in_range 48 49 b) \<or> (in_range 49 50 a \<and> is_decimal b)
                    \<or> (a = 48 \<and> in_range 49 57 b) \<or> (a = 32 \<and> in_range 49 57 b)
      | _ \<Rightarrow> False)"

definition month_text :: "pystr \<Rightarrow> bool" where
  "month_text m =
     (case m of
        [a] \<Rightarrow> in_range 49 57 a
      | [a, b] \<Rightarrow> (a = 49 \<and> in_range 48 50 b) \<or> (a = 48 \<and> in_range 49 57 b)
      | _ \<Rightarrow> False)"

definition year_text :: "pystr \<Rightarrow> bool" where
  "year_text y = (length y = 4 \<and> list_all is_decimal y)"

definition real_date :: "int \<Rightarrow> int \<Rightarrow> int \<Rightarrow> bool" where
  "real_date y m d = (1 \<le> y \<and> y \<le> 9999 \<and> 1 \<le> m \<and> m \<le> 12 \<and> 1 \<le> d \<and> d \<le> days_in_month y m)"

section \<open>Phone validation\<close>

lemma ascii_digit_isdigit_char: "ascii_digit c \<Longrightarrow> isdigit_char c"
  by (simp add: ascii_digit_def isdigit_char_def is_decimal_def decimal_blocks_def)

lemma isdigit_char_superscript_two: "isdigit_char 178"
  by (simp add: isdigit_char_def other_digit_ranges_def)

section \<open>Claims about the phone list of a record\<close>

lemma first_index_le: "first_index v ps \<le> length ps"
  by (simp add: first_index_def length_takeWhile_le)

lemma first_index_before: "j < first_index v ps \<Longrightarrow> phone_value (ps ! j) \<noteq> v"
proof -
  assume "j < first_index v ps"
  then have j: "j < length (takeWhile (\<lambda>p. phone_value p \<noteq> v) ps)" by (simp add: first_index_def)
  then have "takeWhile (\<lambda>p. phone_value p \<noteq> v) ps ! j \<in> set (takeWhile (\<lambda>p. phone_value p \<noteq> v) ps)"
    by (rule nth_mem)
  then have "phone_value (takeWhile (\<lambda>p. phone_value p \<noteq> v) ps ! j) \<noteq> v"
    by (rule set_takeWhileD [THEN conjunct2])
  then show ?thesis using j by (simp add: takeWhile_nth)
qed

lemma first_index_hit: "first_index v ps < length ps \<Longrightarrow> phone_value (ps ! first_index v ps) = v"
  unfolding first_index_def using nth_length_takeWhile by blast

lemma first_index_present: "first_index v ps < length ps \<longleftrightarrow> v \<in> set (map phone_value ps)"
  unfolding first_index_def by (induction ps) auto

lemma edit_phone_loop_first:
  "i \<le> first_index old ps \<Longrightarrow>
   edit_phone_loop old new ps i =
     (if first_index old ps < length ps then
        (case Phone_init new of
           Inl e \<Rightarrow> (Inl e, ps)
         | Inr p \<Rightarrow> (Inr (), ps[first_index old ps := p]))
      else (Inl (ValueError (lit ''Phone number not found'')), ps))"
proof (induction old new ps i rule: edit_phone_loop.induct)
  case (1 old new ps i)
  show ?case
  proof (cases "i < length ps")
    case False
    with "1.prems" first_index_le [of old ps] have "first_index old ps = length ps" by simp
    with False show ?thesis by (subst edit_phone_loop.simps) simp
  next
    case True
    show ?thesis
    proof (cases "phone_value (ps ! i) = old")
      case hit: True
      have "\<not> i < first_index old ps" using first_index_before hit by blast
      with "1.prems" have eq: "first_index old ps = i" by simp
      show ?thesis unfolding eq using True hit by (subst edit_phone_loop.simps) simp
    next
      case miss: False
      have "first_index old ps \<noteq> i" using first_index_hit [of old ps] miss True by auto
      with "1.prems" have "Suc i \<le> first_index old ps" by simp
      from "1.IH" [OF True miss this] show ?thesis
        using True miss by (subst edit_phone_loop.simps) simp
    qed
  qed
qed

text \<open>
  Claim C5. \<open>edit_phone(old, new)\<close> on a record one of whose phones has the value \<open>old\<close>
  builds \<open>Phone(new)\<close> and puts it at the index of the first such phone; the list keeps its
  length and every other index its phone. When \<open>new\<close> is not a valid phone the validation
  error is raised and the record is as before. When no phone has the value \<open>old\<close> the
  method raises \<open>ValueError("Phone number not found")\<close>, whatever \<open>new\<close> is, and the record
  is as before.
\<close>

theorem C5_edit_phone:
  "edit_phone old new r =
     (if old \<in> set (map phone_value (phones r)) then
        (case Phone_init new of
           Inl e \<Rightarrow> (Inl e, r)
         | Inr p \<Rightarrow> (Inr (), r\<lparr>phones := (phones r)[first_index old (phones r) := p]\<rparr>))
      else (Inl (ValueError (lit ''Phone number not found'')), r))
   \<and> (old \<in> set (map phone_value (phones r)) \<longrightarrow>
        first_index old (phones r) < length (phones r)
        \<and> phone_value (phones r ! first_index old (phones r)) = old
        \<and> (\<forall>j < first_index old (phones r). phone_value (phones r ! j) \<noteq> old))"
proof -
  have "edit_phone_loop old new (phones r) 0 =
     (if first_index old (phones r) < length (phones r) then
        (case Phone_init new of
           Inl e \<Rightarrow> (Inl e, phones r)
         | Inr p \<Rightarrow> (Inr (), (phones r)[first_index old (phones r) := p]))
      else (Inl (ValueError (lit ''Phone number not found'')), phones r))"
    by (rule edit_phone_loop_first) simp
  then have "edit_phone old new r =
     (if old \<in> set (map phone_value (phones r)) then
        (case Phone_init new of
           Inl e \<Rightarrow> (Inl e, r)
         | Inr p \<Rightarrow> (Inr (), r\<lparr>phones := (phones r)[first_index old (phones r) := p]\<rparr>))
      else (Inl (ValueError (lit ''Phone number not found'')), r))"
    by (simp add: edit_phone_def first_index_present split: sum.splits)
  moreover have "old \<in> set (map phone_value (phones r)) \<longrightarrow>
        first_index old (phones r) < length (phones r)
        \<and> phone_value (phones r ! first_index old (phones r)) = old
        \<and> (\<forall>j < first_index old (phones r). phone_value (phones r ! j) \<noteq> old)"
    using first_index_present [of old "phones r"] first_index_hit [of old "phones r"]
      first_index_before [of _ old "phones r"] by blast
  ultimately show ?thesis by blast
qed

lemma Phone_init_ascii: "length v = 10 \<Longrightarrow> list_all ascii_digit v \<Longrightarrow> Phone_init v = Inr (Phone v)"
  by (auto simp: Phone_init_def is_valid_phone_def isdigit_def list_all_iff ascii_digit_isdigit_char)

theorem C5_edit_phone_witness:
  "edit_phone (lit ''1111111111'') (lit ''3333333333'')
     \<lparr>name = Name (lit ''Alice''), phones = [Phone (lit ''1111111111''), Phone (lit ''2222222222'')], birthday = None\<rparr>
   = (Inr (), \<lparr>name = Name (lit ''Alice''), phones = [Phone (lit ''3333333333''), Phone (lit ''2222222222'')], birthday = None\<rparr>)
   \<and> edit_phone (lit ''9999999999'') (lit ''0000000000'')
     \<lparr>name = Name (lit ''Alice''), phones = [Phone (lit ''1111111111''), Phone (lit ''2222222222'')], birthday = None\<rparr>
   = (Inl (ValueError (lit ''Phone number not found'')), \<lparr>name = Name (lit ''Alice''), phones = [Phone (lit ''1111111111''), Phone (lit ''2222222222'')], birthday = None\<rparr>)"
  using C5_edit_phone [of "lit ''1111111111''" "lit ''3333333333''" "\<lparr>name = Name (lit ''Alice''), phones = [Phone (lit ''1111111111''), Phone (lit ''2222222222'')], birthday = None\<rparr>"]
   C5_edit_phone [of "lit ''9999999999''" "lit ''0000000000''" "\<lparr>name = Name (lit ''Alice''), phones = [Phone (lit ''1111111111''), Phone (lit ''2222222222'')], birthday = None\<rparr>"]
  by (simp add: first_index_def Phone_init_def is_valid_phone_def isdigit_def ascii_digit_isdigit_char ascii_digit_def)

section \<open>Claims about Phone\<close>

text \<open>
  Claim C4, amended. \<open>Phone(value)\<close> succeeds exactly when \<open>value\<close> has exactly 10
  characters and \<open>str.isdigit\<close> accepts each of them: the ASCII digits 0 to 9, and also any
  other Unicode digit such as a superscript two or an Arabic-Indic digit. On success the
  text is stored as it is, and otherwise the constructor raises the validation error. Ten
  ASCII digits are always accepted.
\<close>

theorem C4_phone_validation:
  "Phone_init v = (if length v = 10 \<and> list_all isdigit_char v then Inr (Phone v)
                   else Inl (ValueError invalid_phone_msg))
   \<and> (length v = 10 \<and> list_all ascii_digit v \<longrightarrow> Phone_init v = Inr (Phone v))"
  using Phone_init_ascii [of v] by (auto simp: Phone_init_def is_valid_phone_def isdigit_def)

theorem C4_phone_validation_witness:
  "Phone_init (lit ''0123456789'') = Inr (Phone (lit ''0123456789''))
   \<and> Phone_init (lit ''12345'') = Inl (ValueError invalid_phone_msg)
   \<and> Phone_init (lit ''12345678ab'') = Inl (ValueError invalid_phone_msg)
   \<and> Phone_init [] = Inl (ValueError invalid_phone_msg)"
  using C4_phone_validation [of "lit ''0123456789''"] C4_phone_validation [of "lit ''12345''"]
    C4_phone_validation [of "lit ''12345678ab''"] C4_phone_validation [of "[]"]
  by (simp add: ascii_digit_def isdigit_char_def is_decimal_def decimal_blocks_def other_digit_ranges_def)

text \<open>
  The claim as written fails: ten superscript twos (U+00B2) are no ASCII digits, and
  \<open>Phone\<close> accepts them.
\<close>

theorem C4_counterexample:
  "Phone_init [178, 178, 178, 178, 178, 178, 178, 178, 178, 178]
     = Inr (Phone [178, 178, 178, 178, 178, 178, 178, 178, 178, 178])
   \<and> \<not> list_all ascii_digit [178, 178, 178, 178, 178, 178, 178, 178, 178, 178]"
  by (simp add: Phone_init_def is_valid_phone_def isdigit_def isdigit_char_superscript_two
      ascii_digit_def)

text \<open>
  Claim C10. \<open>add_phone\<close> builds the \<open>Phone\<close> before it appends: when the text fails the
  validation, the call raises and the record, with its phones, name and birthday, is as it
  was; when it passes, exactly that phone is appended at the end.
\<close>

theorem C10_add_phone:
  "(Phone_init p = Inl e \<longrightarrow> add_phone p r = (Inl e, r))
   \<and> (Phone_init p = Inr q \<longrightarrow> add_phone p r = (Inr (), r\<lparr>phones := phones r @ [q]\<rparr>))
   \<and> (\<not> is_valid_phone p \<longrightarrow> Phone_init p = Inl (ValueError invalid_phone_msg))
   \<and> (is_valid_phone p \<longrightarrow> Phone_init p = Inr (Phone p))"
  by (simp add: add_phone_def Phone_init_def)

theorem C10_add_phone_witness:
  "\<not> is_valid_phone (lit ''12345'')
   \<and> add_phone (lit ''12345'') (Record_init (lit ''Bob'')) = (Inl (ValueError invalid_phone_msg), Record_init (lit ''Bob''))
   \<and> is_valid_phone (lit ''0123456789'')
   \<and> add_phone (lit ''0123456789'') (Record_init (lit ''Bob'')) = (Inr (), (Record_init (lit ''Bob''))\<lparr>phones := [Phone (lit ''0123456789'')]\<rparr>)"
  using C10_add_phone [of "lit ''12345''" "ValueError invalid_phone_msg" "Record_init (lit ''Bob'')" undefined]
     C10_add_phone [of "lit ''0123456789''" undefined "Record_init (lit ''Bob'')" "Phone (lit ''0123456789'')"]
  by (simp add: is_valid_phone_def isdigit_def ascii_digit_isdigit_char ascii_digit_def Record_init_def)

section \<open>Claims about add_record\<close>

lemma add_record_twice:
  "name r1 = name r2 \<Longrightarrow> add_record r2 (add_record r1 book) = add_record r2 book"
  by (simp add: add_record_def)

lemma find_add_record: "find_record (name_value (name r)) (add_record r book) = Some r"
  by (simp add: find_record_def add_record_def update_conv')

lemma find_add_record_other:
  "n \<noteq> name_value (name r) \<Longrightarrow> find_record n (add_record r book) = find_record n book"
  by (simp add: find_record_def add_record_def update_conv')

lemma keys_add_record: "distinct (map fst book) \<Longrightarrow> distinct (map fst (add_record r book))"
  by (simp add: add_record_def distinct_update)

lemma filter_key_update:
  "distinct (map fst al) \<Longrightarrow> filter (\<lambda>(k', v'). k' = k) (AList.update k v al) = [(k, v)]"
proof (induction al)
  case Nil then show ?case by simp
next
  case (Cons p al)
  obtain a b where p: "p = (a, b)" by (cases p)
  show ?case
  proof (cases "a = k")
    case True
    have "filter (\<lambda>(k', v'). k' = k) al = []"
      using Cons.prems p True by (force simp: filter_empty_conv)
    then show ?thesis using p True by simp
  next
    case False
    then show ?thesis using Cons p by simp
  qed
qed

text \<open>
  Claim C7. \<open>add_record\<close> stores the record under its name and has no error case. A second
  \<open>add_record\<close> with a record of the same name leaves the book as if the first had never
  been added: \<open>find\<close> returns the second record, with its phones and birthday, and in a book
  with distinct keys the entry of that name is the second record alone.
\<close>

theorem C7_add_record_overwrites:
  "name r1 = name r2 \<Longrightarrow>
   add_record r2 (add_record r1 book) = add_record r2 book
   \<and> find_record (name_value (name r2)) (add_record r2 (add_record r1 book)) = Some r2
   \<and> (distinct (map fst book) \<longrightarrow>
        filter (\<lambda>(k, r). k = name_value (name r2)) (add_record r2 (add_record r1 book))
          = [(name_value (name r2), r2)])"
  using filter_key_update [of book "name_value (name r2)" r2]
  by (simp add: add_record_twice find_add_record) (simp add: add_record_def)

theorem C7_add_record_overwrites_witness:
  "find_record (lit ''Alice'')
     (add_record \<lparr>name = Name (lit ''Alice''), phones = [Phone (lit ''2222222222'')], birthday = None\<rparr>
       (add_record \<lparr>name = Name (lit ''Alice''), phones = [Phone (lit ''1111111111'')], birthday = Some (Birthday (lit ''15.06.1990''))\<rparr> []))
   = Some \<lparr>name = Name (lit ''Alice''), phones = [Phone (lit ''2222222222'')], birthday = None\<rparr>
   \<and> add_record \<lparr>name = Name (lit ''Alice''), phones = [Phone (lit ''2222222222'')], birthday = None\<rparr>
       (add_record \<lparr>name = Name (lit ''Alice''), phones = [Phone (lit ''1111111111'')], birthday = Some (Birthday (lit ''15.06.1990''))\<rparr> [])
     = [(lit ''Alice'', \<lparr>name = Name (lit ''Alice''), phones = [Phone (lit ''2222222222'')], birthday = None\<rparr>)]"
  using C7_add_record_overwrites [of "\<lparr>name = Name (lit ''Alice''), phones = [Phone (lit ''1111111111'')], birthday = Some (Birthday (lit ''15.06.1990''))\<rparr>"
     "\<lparr>name = Name (lit ''Alice''), phones = [Phone (lit ''2222222222'')], birthday = None\<rparr>" "[]"]
  by (simp add: add_record_def)


section \<open>Claims about the keys of the book\<close>

lemma keys_update:
  "keys_are_names book \<Longrightarrow> k = name_value (name r) \<Longrightarrow> keys_are_names (AList.update k r book)"
  unfolding keys_are_names_def by (induction book) auto

lemma keys_add: "keys_are_names book \<Longrightarrow> keys_are_names (add_record r book)"
  by (simp add: add_record_def keys_update)

lemma keys_store:
  "keys_are_names book \<Longrightarrow> name r = Name n \<Longrightarrow> keys_are_names (store n r book)"
  by (simp add: store_def keys_update)

lemma keys_find:
  "keys_are_names book \<Longrightarrow> find_record n book = Some r \<Longrightarrow> name r = Name n"
proof -
  assume k: "keys_are_names book" and f: "find_record n book = Some r"
  from f have "(n, r) \<in> set book" by (simp add: find_record_def map_of_SomeD)
  with k have "n = name_value (name r)" by (auto simp: keys_are_names_def list_all_iff)
  then show ?thesis by (cases "name r") simp
qed

lemma name_add_phone: "name (snd (add_phone p r)) = name r"
  by (simp add: add_phone_def split: sum.splits)

lemma name_remove_phone: "name (snd (remove_phone p r)) = name r"
  by (simp add: remove_phone_def)

lemma name_edit_phone: "name (snd (edit_phone old new r)) = name r"
  by (simp add: edit_phone_def split: prod.splits)

lemma name_add_birthday: "name (snd (Record_add_birthday b r)) = name r"
  by (simp add: Record_add_birthday_def split: sum.splits)

lemma snd_input_error: "snd (input_error h args book) = snd (h args book)"
  by (simp add: input_error_def split: prod.splits sum.splits error.splits)

lemma keys_add_contact:
  assumes "keys_are_names book" shows "keys_are_names (snd (add_contact_body args book))"
proof (cases args)
  case Nil then show ?thesis using assms by (simp add: add_contact_body_def)
next
  case (Cons n rest)
  show ?thesis
  proof (cases rest)
    case Nil then show ?thesis using assms Cons by (simp add: add_contact_body_def)
  next
    case (Cons phone rest')
    show ?thesis
    proof (cases "find_record n book")
      case None
      have "keys_are_names (store n (snd (add_phone phone (Record_init n))) (add_record (Record_init n) book))"
        by (rule keys_store [OF keys_add [OF assms]]) (simp add: name_add_phone Record_init_def)
      then show ?thesis using None Cons \<open>args = n # rest\<close> assms
        by (auto simp: add_contact_body_def keys_add split: prod.splits sum.splits)
    next
      case (Some r)
      have "keys_are_names (store n (snd (add_phone phone r)) book)"
        by (rule keys_store [OF assms]) (simp add: name_add_phone keys_find [OF assms Some])
      then show ?thesis using Some Cons \<open>args = n # rest\<close> assms
        by (auto simp: add_contact_body_def split: prod.splits sum.splits)
    qed
  qed
qed

lemma keys_change_contact:
  assumes "keys_are_names book" shows "keys_are_names (snd (change_contact_body args book))"
proof -
  have st: "keys_are_names (store n r' book)"
    if "find_record n book = Some r" "edit_phone a b r = (res, r')" for n a b r res r'
    using keys_store [OF assms, of r' n] name_edit_phone [of a b r] keys_find [OF assms that(1)]
      that(2) by simp
  show ?thesis using assms st
    by (auto simp: change_contact_body_def split: list.splits option.splits prod.splits sum.splits)
qed

lemma keys_add_birthday:
  assumes "keys_are_names book" shows "keys_are_names (snd (add_birthday_body args book))"
proof -
  have st: "keys_are_names (store n r' book)"
    if "find_record n book = Some r" "Record_add_birthday b r = (res, r')" for n b r res r'
    using keys_store [OF assms, of r' n] name_add_birthday [of b r] keys_find [OF assms that(1)]
      that(2) by simp
  show ?thesis using assms st
    by (auto simp: add_birthday_body_def split: list.splits option.splits prod.splits sum.splits)
qed

lemma snd_show_phone: "snd (show_phone_body args book) = book"
  by (simp add: show_phone_body_def split: list.splits option.splits)

lemma snd_show_birthday: "snd (show_birthday_body args book) = book"
  by (simp add: show_birthday_body_def split: list.splits option.splits)

lemma snd_birthdays: "snd (birthdays_body clock args book) = book"
  by (simp add: birthdays_body_def split: sum.splits)

lemma keys_handler:
  "keys_are_names book \<Longrightarrow> keys_are_names (snd (handler_of book_repr clock cmd args book))"
  by (cases cmd)
    (simp_all add: add_contact_def change_contact_def show_phone_def show_all_def
      add_birthday_def show_birthday_def birthdays_def snd_input_error keys_add_contact
      keys_change_contact keys_add_birthday snd_show_phone snd_show_birthday snd_birthdays
      show_all_body_def)

text \<open>
  Claim C9. In every book reached from the empty one by \<open>add_record\<close>, by the handlers and
  by the methods of \<open>Record\<close> called on a record that \<open>find\<close> returned, each key is the
  name stored in the record it maps to.
\<close>

theorem C9_keys_are_names: "reachable book \<Longrightarrow> keys_are_names book"
proof (induction rule: reachable.induct)
  case empty
  show ?case by (simp add: keys_are_names_def)
next
  case (add_record book r)
  then show ?case by (simp add: keys_add)
next
  case (handler book book_repr clock cmd args)
  then show ?case by (simp add: keys_handler)
next
  case (found_add_phone book n r phone)
  then show ?case by (simp add: keys_store name_add_phone keys_find)
next
  case (found_remove_phone book n r phone)
  then show ?case by (simp add: keys_store name_remove_phone keys_find)
next
  case (found_edit_phone book n r old_phone new_phone)
  then show ?case by (simp add: keys_store name_edit_phone keys_find)
next
  case (found_add_birthday book n r b)
  then show ?case by (simp add: keys_store name_add_birthday keys_find)
qed

lemma add_contact_alice:
  "snd (add_contact [lit ''alice'', lit ''1234567890''] [])
     = [(lit ''alice'', \<lparr>name = Name (lit ''alice''), phones = [Phone (lit ''1234567890'')], birthday = None\<rparr>)]"
  by (simp add: add_contact_def snd_input_error add_contact_body_def find_record_def
      add_record_def Record_init_def store_def add_phone_def Phone_init_def is_valid_phone_def
      isdigit_def ascii_digit_isdigit_char ascii_digit_def)

theorem C9_keys_are_names_witness:
  "reachable [(lit ''alice'', \<lparr>name = Name (lit ''alice''), phones = [Phone (lit ''1234567890'')], birthday = None\<rparr>)]
   \<and> keys_are_names [(lit ''alice'', \<lparr>name = Name (lit ''alice''), phones = [Phone (lit ''1234567890'')], birthday = None\<rparr>)]"
proof -
  have "reachable (snd (handler_of (\<lambda>b. []) (\<lambda>n. undefined) AddContact [lit ''alice'', lit ''1234567890''] []))"
    by (rule reachable.handler [OF reachable.empty])
  then have r: "reachable [(lit ''alice'', \<lparr>name = Name (lit ''alice''), phones = [Phone (lit ''1234567890'')], birthday = None\<rparr>)]"
    by (simp only: handler_of.simps add_contact_alice)
  from r C9_keys_are_names [OF r] show ?thesis by simp
qed

section \<open>Claims about 29 February\<close>

lemma is_decimal_small: "c < 1632 \<Longrightarrow> is_decimal c = (48 \<le> c \<and> c \<le> 57)"
  by (auto simp add: is_decimal_def decimal_blocks_def)

lemma decimal_value_ascii: "48 \<le> c \<Longrightarrow> c \<le> 57 \<Longrightarrow> decimal_value c = c - 48"
  by (simp add: decimal_value_def decimal_blocks_def)

lemmas strptime_eval = strptime_def format_regex_def re_d_def re_m_def re_Y_def re_dot_def
  re_alt_def re_seq_def re_char_def in_range_def is_decimal_small py_int_def
  decimal_value_ascii check_date_fields_def days_in_month_def is_leap_def

lemma check_date_fields_error: "check_date_fields y m d = Inl e \<Longrightarrow> \<exists>msg. e = ValueError msg"
  by (auto simp: check_date_fields_def split: if_splits)

lemma check_date_fields_ok: "check_date_fields y m d = Inr u \<longleftrightarrow> real_date y m d"
  by (auto simp: check_date_fields_def real_date_def)

lemma replace_year_ok:
  "replace_year dt y = Inr dt' \<Longrightarrow> dt' = dt\<lparr>year := y\<rparr> \<and> valid_date dt'"
  by (auto simp: replace_year_def valid_date_def check_date_fields_def split: sum.splits if_splits)

lemma replace_year_error: "replace_year dt y = Inl e \<Longrightarrow> \<exists>msg. e = ValueError msg"
  by (auto simp: replace_year_def split: sum.splits dest: check_date_fields_error)

lemma strptime_error: "strptime v = Inl e \<Longrightarrow> \<exists>msg. e = ValueError msg"
  by (auto simp: strptime_def split: list.splits prod.splits if_splits sum.splits
      dest: check_date_fields_error)

lemma next_year_not_leap: "is_leap y \<Longrightarrow> \<not> is_leap (y + 1)"
  unfolding is_leap_def by presburger

lemma leap_not_9999: "is_leap y \<Longrightarrow> y \<noteq> 9999"
  unfolding is_leap_def by auto

lemma feb29_this_year:
  assumes "month d = 2" "day d = 29" "1 \<le> y" "y \<le> 9999"
  shows "replace_year d y = (if is_leap y then Inr (d\<lparr>year := y\<rparr>)
                             else Inl (ValueError (lit ''day is out of range for month'')))"
  using assms by (simp add: replace_year_def check_date_fields_def days_in_month_def)

lemma feb29_raises:
  assumes "month d = 2" "day d = 29"
    and "\<not> is_leap (year today) \<or> dt_less (d\<lparr>year := year today\<rparr>) today"
  shows "\<exists>m. (case replace_year d (year today) of
             Inl e \<Rightarrow> Inl e
           | Inr next_birthday \<Rightarrow>
               if dt_less next_birthday today
               then replace_year next_birthday (year today + 1)
               else Inr next_birthday) = Inl (ValueError m)
        \<and> (1 \<le> year today \<and> year today \<le> 9999 \<longrightarrow> m = lit ''day is out of range for month'')"
proof (cases "1 \<le> year today \<and> year today \<le> 9999")
  case False
  then show ?thesis by (auto simp: replace_year_def check_date_fields_def)
next
  case True
  show ?thesis
  proof (cases "is_leap (year today)")
    case False
    then show ?thesis using True assms by (simp add: feb29_this_year)
  next
    case leap: True
    then have lt: "dt_less (d\<lparr>year := year today\<rparr>) today" using assms by simp
    have "year today \<noteq> 9999" using leap by (rule leap_not_9999)
    then have r: "1 \<le> year today + 1" "year today + 1 \<le> 9999" using True by simp_all
    have "replace_year (d\<lparr>year := year today\<rparr>) (year today + 1)
            = Inl (ValueError (lit ''day is out of range for month''))"
      using feb29_this_year [of "d\<lparr>year := year today\<rparr>" "year today + 1"] assms r
        next_year_not_leap [OF leap] by simp
    then show ?thesis using True leap lt assms by (simp add: feb29_this_year)
  qed
qed

text \<open>
  Claim C6. Take a record whose stored birthday parses to 29 February. The method first
  moves the date to the current year and raises when that year is not a leap year; when the
  current year is a leap year and its 29 February lies before now, it moves the date to the
  next year, which is never a leap year, and raises. The exception is the \<open>ValueError\<close> of
  the date constructor, and the loop body of \<open>get_upcoming_birthdays\<close> raises it too. In the
  remaining case, a leap year whose 29 February is not yet past, the method returns a day
  count.
\<close>

theorem C6_feb29:
  assumes "birthday r = Some b" and "strptime (birthday_value b) = Inr d"
    and "month d = 2" and "day d = 29"
  shows "(\<not> is_leap (year today) \<or> dt_less (d\<lparr>year := year today\<rparr>) today \<longrightarrow>
            (\<exists>m. get_days_to_birthday today r = Inl (ValueError m)
                 \<and> upcoming_item today' today days r = Inl (ValueError m)
                 \<and> (1 \<le> year today \<and> year today \<le> 9999 \<longrightarrow>
                       m = lit ''day is out of range for month'')))
       \<and> (1 \<le> year today \<and> year today \<le> 9999 \<and> is_leap (year today)
            \<and> \<not> dt_less (d\<lparr>year := year today\<rparr>) today \<longrightarrow>
            get_days_to_birthday today r
              = Inr (Some (sub_days (d\<lparr>year := year today\<rparr>) today)))"
proof (intro conjI impI)
  assume a: "\<not> is_leap (year today) \<or> dt_less (d\<lparr>year := year today\<rparr>) today"
  from feb29_raises [OF assms(3,4) a] obtain m where
    m: "(case replace_year d (year today) of
             Inl e \<Rightarrow> Inl e
           | Inr next_birthday \<Rightarrow>
               if dt_less next_birthday today
               then replace_year next_birthday (year today + 1)
               else Inr next_birthday) = Inl (ValueError m)"
    and msg: "1 \<le> year today \<and> year today \<le> 9999 \<longrightarrow> m = lit ''day is out of range for month''"
    by blast
  from m have g: "get_days_to_birthday today r = Inl (ValueError m)"
    using assms(1,2) by (simp add: get_days_to_birthday_def next_birthday_date_def)
  then have "upcoming_item today' today days r = Inl (ValueError m)"
    by (simp add: upcoming_item_def)
  with g msg show "\<exists>m. get_days_to_birthday today r = Inl (ValueError m)
                 \<and> upcoming_item today' today days r = Inl (ValueError m)
                 \<and> (1 \<le> year today \<and> year today \<le> 9999 \<longrightarrow>
                       m = lit ''day is out of range for month'')" by blast
next
  assume a: "1 \<le> year today \<and> year today \<le> 9999 \<and> is_leap (year today)
            \<and> \<not> dt_less (d\<lparr>year := year today\<rparr>) today"
  then show "get_days_to_birthday today r
              = Inr (Some (sub_days (d\<lparr>year := year today\<rparr>) today))"
    using assms by (simp add: get_days_to_birthday_def next_birthday_date_def feb29_this_year)
qed


lemma strptime_feb29_2024:
  "strptime (lit ''29.02.2024'')
     = Inr \<lparr>year = 2024, month = 2, day = 29, hour = 0, minute = 0, second = 0, microsecond = 0\<rparr>"
  by (simp add: strptime_eval)

lemmas date_eval = dt_less_def dt_fields_def sub_days_def toordinal_def days_before_year_def
  days_before_month_def days_in_month_def is_leap_def weekday_def

theorem C6_feb29_witness:
  "get_days_to_birthday
     \<lparr>year = 2023, month = 6, day = 1, hour = 12, minute = 0, second = 0, microsecond = 0\<rparr>
     \<lparr>name = Name (lit ''Eve''), phones = [], birthday = Some (Birthday (lit ''29.02.2024''))\<rparr>
     = Inl (ValueError (lit ''day is out of range for month''))
   \<and> get_days_to_birthday
     \<lparr>year = 2024, month = 3, day = 1, hour = 12, minute = 0, second = 0, microsecond = 0\<rparr>
     \<lparr>name = Name (lit ''Eve''), phones = [], birthday = Some (Birthday (lit ''29.02.2024''))\<rparr>
     = Inl (ValueError (lit ''day is out of range for month''))
   \<and> get_days_to_birthday
     \<lparr>year = 2024, month = 1, day = 15, hour = 12, minute = 0, second = 0, microsecond = 0\<rparr>
     \<lparr>name = Name (lit ''Eve''), phones = [], birthday = Some (Birthday (lit ''29.02.2024''))\<rparr>
     = Inr (Some 44)"
proof -
  let ?r = "\<lparr>name = Name (lit ''Eve''), phones = [], birthday = Some (Birthday (lit ''29.02.2024''))\<rparr>"
  let ?d = "\<lparr>year = 2024, month = 2, day = 29, hour = 0, minute = 0, second = 0, microsecond = 0\<rparr>"
  have b: "birthday ?r = Some (Birthday (lit ''29.02.2024''))" by simp
  have p: "strptime (birthday_value (Birthday (lit ''29.02.2024''))) = Inr ?d"
    using strptime_feb29_2024 by simp
  have m: "month ?d = 2" and d: "day ?d = 29" by simp_all
  note c = C6_feb29 [OF b p m d]
  show ?thesis
    using c [of "\<lparr>year = 2023, month = 6, day = 1, hour = 12, minute = 0, second = 0, microsecond = 0\<rparr>"]
      c [of "\<lparr>year = 2024, month = 3, day = 1, hour = 12, minute = 0, second = 0, microsecond = 0\<rparr>"]
      c [of "\<lparr>year = 2024, month = 1, day = 15, hour = 12, minute = 0, second = 0, microsecond = 0\<rparr>"]
    by (simp add: date_eval)
qed
section \<open>Claims about upcoming birthdays\<close>

lemma digits10_1: "n < 10 \<Longrightarrow> digits10 n = [48 + n]"
  by (subst digits10.simps) simp

lemma digits10_2: "10 \<le> n \<Longrightarrow> n < 100 \<Longrightarrow> digits10 n = [48 + n div 10, 48 + n mod 10]"
  by (subst digits10.simps) (simp add: digits10_1)

lemma digits10_3:
  "100 \<le> n \<Longrightarrow> n < 1000 \<Longrightarrow> digits10 n = [48 + n div 100, 48 + n div 10 mod 10, 48 + n mod 10]"
  by (subst digits10.simps) (simp add: digits10_2 div_mult2_eq [symmetric])

lemma digits10_4:
  "1000 \<le> n \<Longrightarrow> n < 10000 \<Longrightarrow>
   digits10 n = [48 + n div 1000, 48 + n div 100 mod 10, 48 + n div 10 mod 10, 48 + n mod 10]"
  by (subst digits10.simps) (simp add: digits10_3 div_mult2_eq [symmetric])









lemma next_birthday_date_ok:
  assumes "next_birthday_date today v = Inr nb"
  shows "valid_date nb \<and> (year nb = year today \<or> year nb = year today + 1)"
proof -
  from assms obtain bd n0 where
    "strptime v = Inr bd" and r0: "replace_year bd (year today) = Inr n0"
    and rest: "(if dt_less n0 today then replace_year n0 (year today + 1) else Inr n0) = Inr nb"
    by (auto simp: next_birthday_date_def split: sum.splits)
  show ?thesis
  proof (cases "dt_less n0 today")
    case True
    with rest have "replace_year n0 (year today + 1) = Inr nb" by simp
    from replace_year_ok [OF this] show ?thesis by auto
  next
    case False
    with rest have "nb = n0" by simp
    with replace_year_ok [OF r0] show ?thesis by auto
  qed
qed

lemma next_birthday_date_error:
  "next_birthday_date today v = Inl e \<Longrightarrow> \<exists>msg. e = ValueError msg"
  by (auto simp: next_birthday_date_def split: sum.splits if_splits
      dest: strptime_error replace_year_error)

lemma next_day_valid:
  assumes "valid_date d" "year (next_day d) \<le> 9999"
  shows "valid_date (next_day d)"
  using assms by (auto simp: valid_date_def next_day_def days_in_month_def split: if_splits)


lemma next_day_year_over:
  assumes "valid_date d" "9999 < year (next_day d)"
  shows "year d = 9999 \<and> month d = 12 \<and> day d = 31"
  using assms by (auto simp: valid_date_def next_day_def days_in_month_def split: if_splits)

lemma next_day_twice_year_over:
  assumes "valid_date d" "year (next_day d) \<le> 9999" "9999 < year (next_day (next_day d))"
  shows "year d = 9999 \<and> month d = 12 \<and> day d = 30"
proof -
  have "valid_date (next_day d)" using assms(1,2) by (rule next_day_valid)
  from next_day_year_over [OF this assms(3)] show ?thesis
    using assms(1) by (auto simp: valid_date_def next_day_def days_in_month_def split: if_splits)
qed

lemma days_before_december: "days_before_month y 12 = (if is_leap y then 335 else 334)"
  by (simp add: days_before_month_def days_in_month_def upto.simps)

lemma weekday_end_of_9999:
  assumes "year d = 9999" "month d = 12" "day d = 30 \<or> day d = 31"
  shows "weekday d = 3 \<or> weekday d = 4"
  using assms by (auto simp: weekday_def toordinal_def days_before_year_def days_before_december
      is_leap_def)

lemma saturday_shift:
  assumes "valid_date d" "weekday d = 5"
  shows "add_days d 2 = Inr (next_day (next_day d))"
proof -
  have a: "year (next_day d) \<le> 9999"
    using next_day_year_over [OF assms(1)] weekday_end_of_9999 [of d] assms(2) by fastforce
  have b: "year (next_day (next_day d)) \<le> 9999"
    using next_day_twice_year_over [OF assms(1) a] weekday_end_of_9999 [of d] assms(2) by fastforce
  have "add_days d (Suc (Suc 0)) = Inr (next_day (next_day d))" using a b by simp
  then show ?thesis by (simp add: numeral_2_eq_2)
qed

lemma sunday_shift:
  assumes "valid_date d" "weekday d = 6"
  shows "add_days d 1 = Inr (next_day d)"
proof -
  have a: "year (next_day d) \<le> 9999"
    using next_day_year_over [OF assms(1)] weekday_end_of_9999 [of d] assms(2) by fastforce
  then show ?thesis by simp
qed

lemma weekend_shift_ok:
  assumes "valid_date d"
  shows "weekend_shift d = Inr (if weekday d = 5 then next_day (next_day d)
                                else if weekday d = 6 then next_day d else d)
         \<and> valid_date (if weekday d = 5 then next_day (next_day d)
                                else if weekday d = 6 then next_day d else d)"
proof -
  consider (sat) "weekday d = 5" | (sun) "weekday d = 6" | (other) "weekday d \<noteq> 5" "weekday d \<noteq> 6"
    by blast
  then show ?thesis
  proof cases
    case sat
    have a: "year (next_day d) \<le> 9999"
      using next_day_year_over [OF assms(1)] weekday_end_of_9999 [of d] sat by fastforce
    have b: "year (next_day (next_day d)) \<le> 9999"
      using next_day_twice_year_over [OF assms(1) a] weekday_end_of_9999 [of d] sat by fastforce
    have "valid_date (next_day (next_day d))"
      using next_day_valid [OF next_day_valid [OF assms a] b] .
    then show ?thesis using sat saturday_shift [OF assms sat] by (simp add: weekend_shift_def)
  next
    case sun
    have a: "year (next_day d) \<le> 9999"
      using next_day_year_over [OF assms(1)] weekday_end_of_9999 [of d] sun by fastforce
    then show ?thesis using sun sunday_shift [OF assms sun] next_day_valid [OF assms a]
      by (simp add: weekend_shift_def)
  next
    case other
    then show ?thesis using assms by (simp add: weekend_shift_def)
  qed
qed




lemma add_days_1:
  "add_days dt 1 = (if year (next_day dt) > 9999
                    then Inl (OverflowError (lit ''date value out of range''))
                    else Inr (next_day dt))"
  by simp

lemma add_days_2:
  "add_days dt 2 = (if year (next_day dt) > 9999
                    then Inl (OverflowError (lit ''date value out of range''))
                    else add_days (next_day dt) 1)"
  by (simp add: numeral_2_eq_2)

lemmas item_eval = upcoming_item_def get_days_to_birthday_def next_birthday_date_def
  replace_year_def weekend_shift_def next_day_def strftime_def zero_pad2_def str_int_def
  digits10_1 digits10_2 digits10_3 digits10_4 add_days_1 add_days_2








text \<open>
  Claim C1 says that a record with a birthday is reported exactly when its next occurrence
  is at most \<open>days\<close> days away, and that a record without a birthday is passed over. The
  code measures the distance from the current instant, time of day included, and rounds
  down, so it does not do that. At noon of 1 January 2024, with a horizon of 7 days: the
  record whose birthday is 9 January, whose next occurrence is eight days away, is
  reported; and for the record whose birthday is 1 January, whose next occurrence is
  today, the day count is 365 and the record is not reported.
\<close>

theorem C1_failing_input:
  "next_birthday_date \<lparr>year = 2024, month = 1, day = 1, hour = 12, minute = 0, second = 0, microsecond = 0\<rparr> (lit ''09.01.1990'')
     = Inr \<lparr>year = 2024, month = 1, day = 9, hour = 0, minute = 0, second = 0, microsecond = 0\<rparr>
   \<and> toordinal \<lparr>year = 2024, month = 1, day = 9, hour = 0, minute = 0, second = 0, microsecond = 0\<rparr>
       - toordinal \<lparr>year = 2024, month = 1, day = 1, hour = 12, minute = 0, second = 0, microsecond = 0\<rparr> = 7 + 1
   \<and> get_days_to_birthday \<lparr>year = 2024, month = 1, day = 1, hour = 12, minute = 0, second = 0, microsecond = 0\<rparr>
       \<lparr>name = Name (lit ''dan''), phones = [], birthday = Some (Birthday (lit ''09.01.1990''))\<rparr> = Inr (Some 7)
   \<and> get_upcoming_birthdays (fixed_clock \<lparr>year = 2024, month = 1, day = 1, hour = 12, minute = 0, second = 0, microsecond = 0\<rparr>) 7
       [(lit ''dan'', \<lparr>name = Name (lit ''dan''), phones = [], birthday = Some (Birthday (lit ''09.01.1990''))\<rparr>)]
     = Inr [\<lparr>item_name = lit ''dan'', item_birthday = lit ''09.01.2024''\<rparr>]
   \<and> get_days_to_birthday \<lparr>year = 2024, month = 1, day = 1, hour = 12, minute = 0, second = 0, microsecond = 0\<rparr>
       \<lparr>name = Name (lit ''tom''), phones = [], birthday = Some (Birthday (lit ''01.01.1990''))\<rparr> = Inr (Some 365)
   \<and> get_upcoming_birthdays (fixed_clock \<lparr>year = 2024, month = 1, day = 1, hour = 12, minute = 0, second = 0, microsecond = 0\<rparr>) 7
       [(lit ''tom'', \<lparr>name = Name (lit ''tom''), phones = [], birthday = Some (Birthday (lit ''01.01.1990''))\<rparr>)]
     = Inr []"
  by (simp add: get_upcoming_birthdays_def fixed_clock_def item_eval strptime_eval date_eval)

text \<open>
  The day count against the calendar: the next occurrence is a midnight, the clock reading
  usually is not, and the difference is rounded down. So the day count is the number of
  calendar days from today to the occurrence when the clock reads midnight exactly, and
  one less at any later time of the day.
\<close>

lemma floor_div_minus:
  fixes K t D :: int
  assumes "0 < t" "t < K"
  shows "(D * K - t) div K = D - 1"
proof -
  have e: "D * K - t = (K - t) + (D - 1) * K" by (simp add: algebra_simps)
  have "((K - t) + (D - 1) * K) div K = (D - 1) + (K - t) div K"
    using assms by (intro div_mult_self1) simp
  moreover have "(K - t) div K = 0" using assms by (intro div_pos_pos_trivial) simp_all
  ultimately have "((K - t) + (D - 1) * K) div K = D - 1" by simp
  then show ?thesis by (simp only: e)
qed

lemma sub_days_calendar:
  assumes "hour a = 0" "minute a = 0" "second a = 0" "microsecond a = 0"
    and "0 \<le> time_of_day b" "time_of_day b < 86400000000"
  shows "sub_days a b = toordinal a - toordinal b - (if time_of_day b = 0 then 0 else 1)"
proof -
  define K :: int where "K = 86400000000"
  define D where "D = toordinal a - toordinal b"
  define t where "t = time_of_day b"
  have eq: "sub_days a b = (D * K - t) div K"
    unfolding sub_days_def Let_def K_def D_def t_def time_of_day_def using assms(1-4) by simp
  show ?thesis
  proof (cases "t = 0")
    case True
    then show ?thesis using eq by (simp add: K_def D_def t_def)
  next
    case False
    then have "0 < t" "t < K" using assms(5,6) by (simp_all add: t_def K_def)
    from floor_div_minus [OF this] show ?thesis using eq False by (simp add: D_def t_def)
  qed
qed

section \<open>Claims about the handlers\<close>

lemma Phone_init_error: "Phone_init v = Inl e \<Longrightarrow> caught e"
  by (auto simp: Phone_init_def caught_def split: if_splits)

lemma add_phone_error: "add_phone p r = (Inl e, r') \<Longrightarrow> caught e"
  by (auto simp: add_phone_def split: sum.splits dest: Phone_init_error)

lemma edit_phone_error: "edit_phone a b r = (Inl e, r') \<Longrightarrow> caught e"
  using edit_phone_loop_first [of 0 a "phones r" b]
  by (auto simp: edit_phone_def caught_def split: if_splits sum.splits dest: Phone_init_error)

lemma Birthday_init_error: "Birthday_init v = Inl e \<Longrightarrow> caught e"
  by (auto simp: Birthday_init_def caught_def split: sum.splits error.splits
      dest: strptime_error)

lemma Record_add_birthday_error: "Record_add_birthday v r = (Inl e, r') \<Longrightarrow> caught e"
  by (auto simp: Record_add_birthday_def split: sum.splits dest: Birthday_init_error)

lemma upcoming_item_error:
  assumes "upcoming_item today now days r = Inl e"
  shows "\<exists>m. e = ValueError m"
proof (cases "get_days_to_birthday now r")
  case (Inl e')
  then have "e' = e" using assms by (simp add: upcoming_item_def)
  with Inl show ?thesis
    by (auto simp: get_days_to_birthday_def split: option.splits sum.splits
        dest: next_birthday_date_error)
next
  case (Inr res)
  show ?thesis
  proof (cases "next_birthday_date today (birthday_value (the (birthday r)))")
    case (Inl e')
    from next_birthday_date_error [OF this] show ?thesis
      using assms Inr Inl by (auto simp: upcoming_item_def split: option.splits if_splits)
  next
    case nb: (Inr nb)
    have "valid_date nb" using next_birthday_date_ok [OF nb] by simp
    from weekend_shift_ok [OF this] show ?thesis
      using assms Inr nb by (auto simp: upcoming_item_def split: option.splits if_splits)
  qed
qed

lemma upcoming_loop_error:
  "upcoming_loop clock n days rs acc = Inl e \<Longrightarrow> \<exists>m. e = ValueError m"
proof (induction rs arbitrary: n acc)
  case Nil
  then show ?case by simp
next
  case (Cons r rs)
  then show ?case
    by (auto split: option.splits sum.splits dest: upcoming_item_error)
qed

lemma body_error:
  "fst (handler_body book_repr clock cmd args book) = Inl e \<Longrightarrow> caught e"
proof (cases cmd)
  case AddContact
  assume "fst (handler_body book_repr clock cmd args book) = Inl e"
  then show ?thesis using AddContact
    by (auto simp: add_contact_body_def caught_def Let_def
        split: list.splits option.splits prod.splits sum.splits if_splits
        dest: add_phone_error)
next
  case ChangeContact
  assume "fst (handler_body book_repr clock cmd args book) = Inl e"
  then show ?thesis using ChangeContact
    by (auto simp: change_contact_body_def caught_def
        split: list.splits option.splits prod.splits sum.splits if_splits
        dest: edit_phone_error)
next
  case ShowPhone
  assume "fst (handler_body book_repr clock cmd args book) = Inl e"
  then show ?thesis using ShowPhone
    by (auto simp: show_phone_body_def caught_def split: list.splits option.splits)
next
  case ShowAll
  assume "fst (handler_body book_repr clock cmd args book) = Inl e"
  then show ?thesis using ShowAll by (simp add: show_all_body_def)
next
  case AddBirthday
  assume "fst (handler_body book_repr clock cmd args book) = Inl e"
  then show ?thesis using AddBirthday
    by (auto simp: add_birthday_body_def caught_def
        split: list.splits option.splits prod.splits sum.splits if_splits
        dest: Record_add_birthday_error)
next
  case ShowBirthday
  assume "fst (handler_body book_repr clock cmd args book) = Inl e"
  then show ?thesis using ShowBirthday
    by (auto simp: show_birthday_body_def caught_def split: list.splits option.splits)
next
  case Birthdays
  assume "fst (handler_body book_repr clock cmd args book) = Inl e"
  then show ?thesis using Birthdays
    by (auto simp: birthdays_body_def get_upcoming_birthdays_def caught_def
        split: sum.splits if_splits dest: upcoming_loop_error)
qed

lemma handler_of_body:
  "handler_of book_repr clock cmd = input_error (handler_body book_repr clock cmd)"
  by (cases cmd)
    (simp_all add: add_contact_def change_contact_def show_phone_def show_all_def
      add_birthday_def show_birthday_def birthdays_def)

lemma input_error_caught:
  assumes "\<And>e. fst (h args book) = Inl e \<Longrightarrow> caught e"
  shows "\<exists>message. input_error h args book = (Inr message, snd (h args book))"
proof (cases "h args book")
  case (Pair res book')
  show ?thesis
  proof (cases res)
    case (Inl e)
    with Pair assms [of e] have "caught e" by simp
    then show ?thesis using Pair Inl by (cases e) (simp_all add: input_error_def caught_def)
  next
    case (Inr m)
    then show ?thesis using Pair by (simp add: input_error_def)
  qed
qed

lemma input_error_text:
  "input_error h args book =
     (case h args book of
        (Inl (ValueError m), b) \<Rightarrow> (Inr m, b)
      | (Inl (IndexError m), b) \<Rightarrow> (Inr m, b)
      | (Inl (KeyError m), b) \<Rightarrow> (Inr m, b)
      | (Inl (OverflowError m), b) \<Rightarrow> (Inl (OverflowError m), b)
      | (Inr m, b) \<Rightarrow> (Inr m, b))"
  by (simp add: input_error_def split: prod.splits sum.splits error.splits)

lemma show_result_ok:
  "fst res = Inr message \<Longrightarrow> show_result res = Inr ([show_message message], snd res, True)"
  by (cases res) (simp add: show_result_def)

text \<open>
  Claim C8. Every decorated handler, on every argument list and every book, returns a
  text; no exception leaves it. When the handler body raises a \<open>ValueError\<close> (a malformed
  phone or birthday, a phone that is not found, a wrong number of arguments in an
  unpacking) or an \<open>IndexError\<close> (no argument where \<open>args[0]\<close> is read), the text is the
  exception's description, and the book is as the body left it. So \<open>process_command\<close>
  always returns, and it lets the command loop go on for every command but \<open>close\<close> and
  \<open>exit\<close>.
\<close>

theorem C8_handlers_return_text:
  "(\<exists>message. handler_of book_repr clock cmd args book
                 = (Inr message, snd (handler_body book_repr clock cmd args book)))
   \<and> (fst (handler_body book_repr clock cmd args book) = Inl (ValueError m) \<longrightarrow>
         fst (handler_of book_repr clock cmd args book) = Inr m)
   \<and> (fst (handler_body book_repr clock cmd args book) = Inl (IndexError m) \<longrightarrow>
         fst (handler_of book_repr clock cmd args book) = Inr m)
   \<and> (fst (handler_body book_repr clock cmd args book) = Inr m \<longrightarrow>
         fst (handler_of book_repr clock cmd args book) = Inr m)
   \<and> (\<exists>events book'. process_command clock command args' book
          = Inr (events, book', command \<noteq> lit ''close'' \<and> command \<noteq> lit ''exit''))"
proof -
  have ret: "\<exists>message. handler_of br ck c a b = (Inr message, snd (handler_body br ck c a b))"
    for br ck c a b
    unfolding handler_of_body by (rule input_error_caught) (rule body_error)
  have conv: "fst (handler_of book_repr clock cmd args book) = Inr m"
    if "fst (handler_body book_repr clock cmd args book) = Inl (ValueError m)
        \<or> fst (handler_body book_repr clock cmd args book) = Inl (IndexError m)
        \<or> fst (handler_body book_repr clock cmd args book) = Inr m"
    using that unfolding handler_of_body
    by (cases "handler_body book_repr clock cmd args book") (auto simp: input_error_def)
  have sr: "\<exists>events book'. show_result (handler_of (\<lambda>b. []) clock c a book)
              = Inr (events, book', True)" for c a
    using ret [of "\<lambda>b. []" clock c a book] by (auto simp: show_result_def)
  have pc: "\<exists>events book'. process_command clock command args' book
          = Inr (events, book', command \<noteq> lit ''close'' \<and> command \<noteq> lit ''exit'')"
    using sr [of AddContact] sr [of ChangeContact] sr [of ShowPhone] sr [of AddBirthday]
      sr [of ShowBirthday] sr [of Birthdays]
    unfolding process_command_def by (simp del: map_eq_Cons_conv)
  show ?thesis using ret [of book_repr clock cmd args book] conv pc by blast
qed


theorem C8_handlers_return_text_witness:
  "fst (handler_body (\<lambda>b. []) (\<lambda>n. \<lparr>year = 2024, month = 1, day = 1, hour = 12, minute = 0, second = 0, microsecond = 0\<rparr>)
          AddContact [lit ''bob''] [])
     = Inl (ValueError (lit ''not enough values to unpack (expected at least 2, got 1)''))
   \<and> fst (handler_of (\<lambda>b. []) (\<lambda>n. \<lparr>year = 2024, month = 1, day = 1, hour = 12, minute = 0, second = 0, microsecond = 0\<rparr>)
          AddContact [lit ''bob''] [])
     = Inr (lit ''not enough values to unpack (expected at least 2, got 1)'')
   \<and> fst (handler_body (\<lambda>b. []) (\<lambda>n. \<lparr>year = 2024, month = 1, day = 1, hour = 12, minute = 0, second = 0, microsecond = 0\<rparr>)
          ShowPhone [] [])
     = Inl (IndexError (lit ''list index out of range''))
   \<and> fst (handler_of (\<lambda>b. []) (\<lambda>n. \<lparr>year = 2024, month = 1, day = 1, hour = 12, minute = 0, second = 0, microsecond = 0\<rparr>)
          ShowPhone [] [])
     = Inr (lit ''list index out of range'')"
proof -
  let ?clock = "\<lambda>n::nat. \<lparr>year = 2024, month = 1, day = 1, hour = 12, minute = 0, second = 0, microsecond = 0\<rparr>"
  have a: "fst (handler_body (\<lambda>b. []) ?clock AddContact [lit ''bob''] [])
     = Inl (ValueError (lit ''not enough values to unpack (expected at least 2, got 1)''))"
    by (simp add: add_contact_body_def str_int_def digits10_1)
  have b: "fst (handler_body (\<lambda>b. []) ?clock ShowPhone [] [])
     = Inl (IndexError (lit ''list index out of range''))"
    by (simp add: show_phone_body_def)
  note c = C8_handlers_return_text [of "\<lambda>b. []" ?clock _ _ "[]" _ "[]" "[]"]
  from c [of AddContact "[lit ''bob'']", THEN conjunct2, THEN conjunct1, rule_format, OF a]
    c [of ShowPhone "[]", THEN conjunct2, THEN conjunct2, THEN conjunct1, rule_format, OF b]
    a b
  show ?thesis by simp
qed

section \<open>Claims about Birthday\<close>

lemma not_decimal_dot: "\<not> is_decimal 46"
  by (simp add: is_decimal_def decimal_blocks_def)

lemma set_re_char: "set (re_char P s) = {(x, r). \<exists>c. x = [c] \<and> P c \<and> s = c # r}"
  by (cases s) (auto simp: re_char_def)

lemma set_re_seq:
  "set (re_seq m1 m2 s) = {(x, r). \<exists>x1 r1 x2. (x1, r1) \<in> set (m1 s) \<and> (x2, r) \<in> set (m2 r1) \<and> x = x1 @ x2}"
  by (auto simp: re_seq_def) force

lemma set_re_alt: "set (re_alt ms s) = (\<Union>m \<in> set ms. set (m s))"
  by (simp add: re_alt_def)

lemma in_range_same: "in_range a a c \<longleftrightarrow> c = a"
  by (auto simp: in_range_def)

lemma set_re_two:
  "set (re_seq (re_char P) (re_char Q) s) = {(x, r). \<exists>a b. x = [a, b] \<and> P a \<and> Q b \<and> s = a # b # r}"
  by (auto simp: set_re_seq set_re_char)

lemma day_text_cases:
  "day_text d \<longleftrightarrow>
     (\<exists>a b. d = [a, b] \<and> a = 51 \<and> in_range 48 49 b)
     \<or> (\<exists>a b. d = [a, b] \<and> in_range 49 50 a \<and> is_decimal b)
     \<or> (\<exists>a b. d = [a, b] \<and> a = 48 \<and> in_range 49 57 b)
     \<or> (\<exists>a. d = [a] \<and> in_range 49 57 a)
     \<or> (\<exists>a b. d = [a, b] \<and> a = 32 \<and> in_range 49 57 b)"
  by (auto simp: day_text_def split: list.splits)

lemma month_text_cases:
  "month_text m \<longleftrightarrow>
     (\<exists>a b. m = [a, b] \<and> a = 49 \<and> in_range 48 50 b)
     \<or> (\<exists>a b. m = [a, b] \<and> a = 48 \<and> in_range 49 57 b)
     \<or> (\<exists>a. m = [a] \<and> in_range 49 57 a)"
  by (auto simp: month_text_def split: list.splits)

lemma set_re_d: "set (re_d s) = {(d, r). day_text d \<and> s = d @ r}"
  unfolding day_text_cases
  by (auto simp: re_d_def set_re_alt set_re_two set_re_char in_range_same)

lemma set_re_m: "set (re_m s) = {(m, r). month_text m \<and> s = m @ r}"
  unfolding month_text_cases
  by (auto simp: re_m_def set_re_alt set_re_two set_re_char in_range_same)

lemma set_re_dot: "set (re_dot s) = {(p, r). p = [46] \<and> s = 46 # r}"
  by (auto simp: re_dot_def set_re_char in_range_same)

lemma year_text_cases:
  "year_text y \<longleftrightarrow> (\<exists>a b c d. y = [a, b, c, d] \<and> is_decimal a \<and> is_decimal b \<and> is_decimal c \<and> is_decimal d)"
proof
  assume "year_text y"
  then have l: "length y = 4" and a: "list_all is_decimal y" by (simp_all add: year_text_def)
  from l obtain a b c d where "y = [a, b, c, d]"
    by (auto simp: length_Suc_conv eval_nat_numeral)
  with a show "\<exists>a b c d. y = [a, b, c, d] \<and> is_decimal a \<and> is_decimal b \<and> is_decimal c \<and> is_decimal d"
    by simp
next
  assume "\<exists>a b c d. y = [a, b, c, d] \<and> is_decimal a \<and> is_decimal b \<and> is_decimal c \<and> is_decimal d"
  then show "year_text y" by (auto simp: year_text_def)
qed

lemma set_re_Y: "set (re_Y s) = {(y, r). year_text y \<and> s = y @ r}"
  unfolding year_text_cases
  by (auto simp: re_Y_def set_re_seq set_re_char)


lemma in_concat_mapD: "x \<in> set (concat (map F xs)) \<Longrightarrow> \<exists>a \<in> set xs. x \<in> set (F a)"
  by auto

lemma format_regexD:
  assumes "(d, m, y, r) \<in> set (format_regex s)"
  shows "\<exists>r1 p1 r2 r3 p2 r4. (d, r1) \<in> set (re_d s) \<and> (p1, r2) \<in> set (re_dot r1)
        \<and> (m, r3) \<in> set (re_m r2) \<and> (p2, r4) \<in> set (re_dot r3) \<and> (y, r) \<in> set (re_Y r4)"
proof -
  from in_concat_mapD [OF assms [unfolded format_regex_def]]
  obtain a where a: "a \<in> set (re_d s)"
    and 1: "(d, m, y, r) \<in> set ((\<lambda>(d, r1). concat (map (\<lambda>(p1, r2). concat (map (\<lambda>(m, r3).
       concat (map (\<lambda>(p2, r4). map (\<lambda>(y, r5). (d, m, y, r5)) (re_Y r4)) (re_dot r3)))
         (re_m r2))) (re_dot r1))) a)" by blast
  obtain d1 r1 where a': "a = (d1, r1)" by (cases a)
  from 1 have "(d, m, y, r) \<in> set (concat (map (\<lambda>(p1, r2). concat (map (\<lambda>(m, r3).
       concat (map (\<lambda>(p2, r4). map (\<lambda>(y, r5). (d1, m, y, r5)) (re_Y r4)) (re_dot r3)))
         (re_m r2))) (re_dot r1)))" by (simp only: a' prod.case)
  from in_concat_mapD [OF this]
  obtain b where b: "b \<in> set (re_dot r1)"
    and 2: "(d, m, y, r) \<in> set ((\<lambda>(p1, r2). concat (map (\<lambda>(m, r3).
       concat (map (\<lambda>(p2, r4). map (\<lambda>(y, r5). (d1, m, y, r5)) (re_Y r4)) (re_dot r3)))
         (re_m r2))) b)" by blast
  obtain p1 r2 where b': "b = (p1, r2)" by (cases b)
  from 2 have "(d, m, y, r) \<in> set (concat (map (\<lambda>(m, r3).
       concat (map (\<lambda>(p2, r4). map (\<lambda>(y, r5). (d1, m, y, r5)) (re_Y r4)) (re_dot r3)))
         (re_m r2)))" by (simp only: b' prod.case)
  from in_concat_mapD [OF this]
  obtain c where c: "c \<in> set (re_m r2)"
    and 3: "(d, m, y, r) \<in> set ((\<lambda>(m, r3).
       concat (map (\<lambda>(p2, r4). map (\<lambda>(y, r5). (d1, m, y, r5)) (re_Y r4)) (re_dot r3))) c)"
    by blast
  obtain m1 r3 where c': "c = (m1, r3)" by (cases c)
  from 3 have "(d, m, y, r) \<in> set (concat (map (\<lambda>(p2, r4).
       map (\<lambda>(y, r5). (d1, m1, y, r5)) (re_Y r4)) (re_dot r3)))" by (simp only: c' prod.case)
  from in_concat_mapD [OF this]
  obtain e where e: "e \<in> set (re_dot r3)"
    and 4: "(d, m, y, r) \<in> set ((\<lambda>(p2, r4). map (\<lambda>(y, r5). (d1, m1, y, r5)) (re_Y r4)) e)"
    by blast
  obtain p2 r4 where e': "e = (p2, r4)" by (cases e)
  from 4 have "(d, m, y, r) \<in> set (map (\<lambda>(y, r5). (d1, m1, y, r5)) (re_Y r4))"
    by (simp only: e' prod.case)
  then have "d = d1" "m = m1" "(y, r) \<in> set (re_Y r4)" by auto
  with a a' b b' c c' e e' show ?thesis by blast
qed

lemma in_concat_mapI: "a \<in> set xs \<Longrightarrow> x \<in> set (F a) \<Longrightarrow> x \<in> set (concat (map F xs))"
  by auto

lemma format_regexI:
  assumes "(d, r1) \<in> set (re_d s)" "(p1, r2) \<in> set (re_dot r1)" "(m, r3) \<in> set (re_m r2)"
    "(p2, r4) \<in> set (re_dot r3)" "(y, r) \<in> set (re_Y r4)"
  shows "(d, m, y, r) \<in> set (format_regex s)"
proof -
  have "(d, m, y, r) = (\<lambda>(y, r5). (d, m, y, r5)) (y, r)" by simp
  then have a: "(d, m, y, r) \<in> set (map (\<lambda>(y, r5). (d, m, y, r5)) (re_Y r4))"
    using assms(5) by (simp only: set_map image_iff) blast
  have b: "(d, m, y, r) \<in> set (concat (map (\<lambda>(p2, r4). map (\<lambda>(y, r5). (d, m, y, r5)) (re_Y r4))
                                      (re_dot r3)))"
    by (rule in_concat_mapI [OF assms(4)], simp only: prod.case, rule a)
  have c: "(d, m, y, r) \<in> set (concat (map (\<lambda>(m, r3).
       concat (map (\<lambda>(p2, r4). map (\<lambda>(y, r5). (d, m, y, r5)) (re_Y r4)) (re_dot r3)))
         (re_m r2)))"
    by (rule in_concat_mapI [OF assms(3)], simp only: prod.case, rule b)
  have e: "(d, m, y, r) \<in> set (concat (map (\<lambda>(p1, r2). concat (map (\<lambda>(m, r3).
       concat (map (\<lambda>(p2, r4). map (\<lambda>(y, r5). (d, m, y, r5)) (re_Y r4)) (re_dot r3)))
         (re_m r2))) (re_dot r1)))"
    by (rule in_concat_mapI [OF assms(2)], simp only: prod.case, rule c)
  show ?thesis unfolding format_regex_def
    by (rule in_concat_mapI [OF assms(1)], simp only: prod.case, rule e)
qed

lemma set_format_regex:
  "(d, m, y, r) \<in> set (format_regex s) \<longleftrightarrow>
     day_text d \<and> month_text m \<and> year_text y \<and> s = d @ [46] @ m @ [46] @ y @ r"
proof
  assume "(d, m, y, r) \<in> set (format_regex s)"
  from format_regexD [OF this] show
    "day_text d \<and> month_text m \<and> year_text y \<and> s = d @ [46] @ m @ [46] @ y @ r"
    by (auto simp: set_re_d set_re_dot set_re_m set_re_Y)
next
  assume a: "day_text d \<and> month_text m \<and> year_text y \<and> s = d @ [46] @ m @ [46] @ y @ r"
  show "(d, m, y, r) \<in> set (format_regex s)"
  proof (rule format_regexI)
    show "(d, 46 # m @ 46 # y @ r) \<in> set (re_d s)" using a by (simp add: set_re_d)
    show "([46], m @ 46 # y @ r) \<in> set (re_dot (46 # m @ 46 # y @ r))" by (simp add: set_re_dot)
    show "(m, 46 # y @ r) \<in> set (re_m (m @ 46 # y @ r))" using a by (simp add: set_re_m)
    show "([46], y @ r) \<in> set (re_dot (46 # y @ r))" by (simp add: set_re_dot)
    show "(y, r) \<in> set (re_Y (y @ r))" using a by (simp add: set_re_Y)
  qed
qed

lemma in_range_not_dot: "in_range a b c \<Longrightarrow> 46 < a \<Longrightarrow> c \<noteq> 46"
  by (auto simp: in_range_def)

lemma day_text_no_dot: "day_text d \<Longrightarrow> 46 \<notin> set d"
  unfolding day_text_cases using not_decimal_dot
  by (auto dest: in_range_not_dot)

lemma month_text_no_dot: "month_text m \<Longrightarrow> 46 \<notin> set m"
  unfolding month_text_cases by (auto dest: in_range_not_dot)

lemma split_at_first:
  assumes "c \<notin> set x" "c \<notin> set x'" "x @ c # r = x' @ c # r'"
  shows "x = x' \<and> r = r'"
proof -
  have tw: "takeWhile (\<lambda>a. a \<noteq> c) (z @ c # t) = z" if "c \<notin> set z" for z t
    using that by (induction z) auto
  have "takeWhile (\<lambda>a. a \<noteq> c) (x @ c # r) = x" "takeWhile (\<lambda>a. a \<noteq> c) (x' @ c # r') = x'"
    using assms(1,2) by (simp_all add: tw)
  with assms(3) have "x = x'" by simp
  with assms(3) show ?thesis by simp
qed

lemma parse_unique:
  assumes "day_text d" "month_text m" "year_text y" "day_text d'" "month_text m'" "year_text y'"
    and "d @ [46] @ m @ [46] @ y @ r = d' @ [46] @ m' @ [46] @ y' @ r'"
  shows "d = d' \<and> m = m' \<and> y = y' \<and> r = r'"
proof -
  from assms(7) have "d @ 46 # (m @ [46] @ y @ r) = d' @ 46 # (m' @ [46] @ y' @ r')" by simp
  from split_at_first [OF day_text_no_dot [OF assms(1)] day_text_no_dot [OF assms(4)] this]
  have d: "d = d'" and "m @ 46 # (y @ r) = m' @ 46 # (y' @ r')" by simp_all
  from split_at_first [OF month_text_no_dot [OF assms(2)] month_text_no_dot [OF assms(5)] this(2)]
  have m: "m = m'" and yr: "y @ r = y' @ r'" by simp_all
  have "length y = length y'" using assms(3,6) by (simp add: year_text_def)
  with yr have "y = y' \<and> r = r'" by simp
  with d m show ?thesis by simp
qed

lemma check_date_fields_unit: "check_date_fields y m d = Inr () \<longleftrightarrow> real_date y m d"
  by (auto simp: check_date_fields_def real_date_def)

lemma strptime_ok_iff:
  "(\<exists>dt. strptime v = Inr dt) \<longleftrightarrow>
     (\<exists>d m y. v = d @ [46] @ m @ [46] @ y \<and> day_text d \<and> month_text m \<and> year_text y
        \<and> real_date (py_int y) (py_int m) (py_int d))"
proof
  assume "\<exists>dt. strptime v = Inr dt"
  then obtain dt where ok: "strptime v = Inr dt" ..
  then obtain d m y t where f: "format_regex v = (d, m, y, []) # t"
    and c: "check_date_fields (py_int y) (py_int m) (py_int d) = Inr ()"
    by (auto simp: strptime_def split: list.splits prod.splits if_splits sum.splits)
  from f have "(d, m, y, []) \<in> set (format_regex v)" by simp
  then have "day_text d \<and> month_text m \<and> year_text y \<and> v = d @ [46] @ m @ [46] @ y"
    by (simp add: set_format_regex)
  with c show "\<exists>d m y. v = d @ [46] @ m @ [46] @ y \<and> day_text d \<and> month_text m \<and> year_text y
        \<and> real_date (py_int y) (py_int m) (py_int d)"
    by (auto simp: check_date_fields_unit)
next
  assume "\<exists>d m y. v = d @ [46] @ m @ [46] @ y \<and> day_text d \<and> month_text m \<and> year_text y
        \<and> real_date (py_int y) (py_int m) (py_int d)"
  then obtain d m y where v: "v = d @ [46] @ m @ [46] @ y @ []"
    and t: "day_text d" "month_text m" "year_text y"
    and rd: "real_date (py_int y) (py_int m) (py_int d)" by auto
  from v t have mem: "(d, m, y, []) \<in> set (format_regex v)" by (simp add: set_format_regex)
  then obtain h t' where f: "format_regex v = h # t'" by (cases "format_regex v") auto
  obtain d' m' y' r' where h: "h = (d', m', y', r')" by (cases h)
  from f h have "(d', m', y', r') \<in> set (format_regex v)" by simp
  then have t': "day_text d'" "month_text m'" "year_text y'"
    and v': "v = d' @ [46] @ m' @ [46] @ y' @ r'" by (simp_all add: set_format_regex)
  from parse_unique [OF t t'] v v' have "d = d' \<and> m = m' \<and> y = y' \<and> [] = r'" by metis
  with f h have "format_regex v = (d, m, y, []) # t'" by simp
  then show "\<exists>dt. strptime v = Inr dt"
    using rd by (simp add: strptime_def check_date_fields_unit [symmetric])
qed

text \<open>
  Claim C3, amended. \<open>Birthday(value)\<close> either succeeds and stores the text as it is, or
  raises the validation error. It succeeds exactly when the text is a day, a dot, a month,
  a dot and a year, where the day is written with two digits or with one (or with a blank
  and one digit), the month with two digits or one, the year with exactly four digits, and
  the three numbers are a real calendar date of the years 1 to 9999. The second digit of a
  day from 10 to 29 and the digits of the year may be any Unicode decimal digits. So
  \<open>Birthday("29.02.2024")\<close> succeeds, \<open>Birthday("29.02.2023")\<close> and \<open>Birthday("31.04.2024")\<close>
  fail, and a text with one-digit fields such as \<open>"1.1.2024"\<close> succeeds.
\<close>

theorem C3_birthday_validation:
  "(Birthday_init v = Inr (Birthday v) \<or> Birthday_init v = Inl (ValueError invalid_date_msg))
   \<and> (Birthday_init v = Inr (Birthday v) \<longleftrightarrow>
        (\<exists>d m y. v = d @ [46] @ m @ [46] @ y \<and> day_text d \<and> month_text m \<and> year_text y
           \<and> real_date (py_int y) (py_int m) (py_int d)))"
proof -
  have a: "Birthday_init v = Inr (Birthday v) \<longleftrightarrow> (\<exists>dt. strptime v = Inr dt)"
    by (auto simp: Birthday_init_def split: sum.splits error.splits)
  have b: "Birthday_init v = Inr (Birthday v) \<or> Birthday_init v = Inl (ValueError invalid_date_msg)"
    by (auto simp: Birthday_init_def split: sum.splits error.splits dest: strptime_error)
  show ?thesis using a b strptime_ok_iff [of v] by simp
qed


text \<open>
  The claim as written fails: it says that \<open>Birthday("1.1.2024")\<close> fails, and \<open>strptime\<close>
  accepts a day and a month of one digit.
\<close>

theorem C3_counterexample:
  "Birthday_init (lit ''1.1.2024'') = Inr (Birthday (lit ''1.1.2024''))"
  by (simp add: Birthday_init_def strptime_eval)

lemma birthday_short_fields:
  "Birthday_init (lit ''3.7.2024'') = Inr (Birthday (lit ''3.7.2024''))"
  by (simp add: Birthday_init_def strptime_eval)

theorem C3_birthday_validation_witness:
  "Birthday_init (lit ''29.02.2024'') = Inr (Birthday (lit ''29.02.2024''))
   \<and> Birthday_init (lit ''29.02.2023'') = Inl (ValueError invalid_date_msg)
   \<and> Birthday_init (lit ''31.04.2024'') = Inl (ValueError invalid_date_msg)
   \<and> Birthday_init (lit ''3.7.2024'') = Inr (Birthday (lit ''3.7.2024''))
   \<and> (\<exists>d m y. lit ''3.7.2024'' = d @ [46] @ m @ [46] @ y \<and> day_text d \<and> month_text m
          \<and> year_text y \<and> real_date (py_int y) (py_int m) (py_int d))"
proof -
  have a: "Birthday_init (lit ''29.02.2024'') = Inr (Birthday (lit ''29.02.2024''))"
    by (simp add: Birthday_init_def strptime_eval)
  have b: "Birthday_init (lit ''29.02.2023'') = Inl (ValueError invalid_date_msg)"
    by (simp add: Birthday_init_def strptime_eval)
  have c: "Birthday_init (lit ''31.04.2024'') = Inl (ValueError invalid_date_msg)"
    by (simp add: Birthday_init_def strptime_eval)
  from C3_birthday_validation [of "lit ''3.7.2024''", THEN conjunct2] birthday_short_fields
  have "\<exists>d m y. lit ''3.7.2024'' = d @ [46] @ m @ [46] @ y \<and> day_text d \<and> month_text m
          \<and> year_text y \<and> real_date (py_int y) (py_int m) (py_int d)"
    by (rule iffD1)
  with a b c birthday_short_fields show ?thesis by (simp only: simp_thms)
qed

end
